theory Spec2Isabelle
  imports Main "HOL-Library.Word"
begin

unbundle bit_operations_syntax

section \<open>Machine state (cpu8080.h)\<close>

type_synonym u8 = "8 word"
type_synonym u16 = "16 word"

text \<open>
  The flag masks of \<^verbatim>\<open>cpu8080.h\<close>. Bit layout of the flags register:
  \<^verbatim>\<open>S Z 0 AC 0 P 1 CY\<close> from bit 7 down to bit 0.
\<close>

definition FLAG_CY :: u8 where "FLAG_CY = 0x01"
definition FLAG_P :: u8 where "FLAG_P = 0x04"
definition FLAG_AC :: u8 where "FLAG_AC = 0x10"
definition FLAG_Z :: u8 where "FLAG_Z = 0x40"
definition FLAG_S :: u8 where "FLAG_S = 0x80"
definition FLAG_FIXED :: u8 where "FLAG_FIXED = 0x02"

text \<open>
  \<^verbatim>\<open>struct State8080\<close>. The field \<open>mem\<close> is a \<^verbatim>\<open>std::array<uint8_t, 0x10000>\<close>:
  exactly one byte for every index in \<open>[0, 0xFFFF]\<close>, which is a total function on
  16-bit words.
\<close>

record State8080 =
  A :: u8
  B :: u8
  C :: u8
  D :: u8
  E :: u8
  H :: u8
  L :: u8
  F :: u8
  PC :: u16
  SP :: u16
  mem :: "u16 \<Rightarrow> u8"
  inte :: bool
  halted :: bool

text \<open>The state that the default member initialisers of the struct produce.\<close>

definition init_state :: State8080 where
  "init_state = \<lparr>A = 0, B = 0, C = 0, D = 0, E = 0, H = 0, L = 0, F = FLAG_FIXED,
     PC = 0, SP = 0, mem = (\<lambda>_. 0), inte = False, halted = False\<rparr>"

text \<open>
  An index of the memory array that is not a \<^verbatim>\<open>uint16_t\<close> value can lie outside the
  array; \<^verbatim>\<open>operator[]\<close> has no defined behaviour there. The model makes that an error.
  \<open>RuntimeError\<close> is the \<^verbatim>\<open>std::runtime_error\<close> that the loader throws.
\<close>

datatype error = OutOfBounds int | RuntimeError string

subsection \<open>Flag helpers\<close>

definition flag_cy :: "State8080 \<Rightarrow> bool" where "flag_cy s = (F s AND FLAG_CY \<noteq> 0)"
definition flag_p :: "State8080 \<Rightarrow> bool" where "flag_p s = (F s AND FLAG_P \<noteq> 0)"
definition flag_ac :: "State8080 \<Rightarrow> bool" where "flag_ac s = (F s AND FLAG_AC \<noteq> 0)"
definition flag_z :: "State8080 \<Rightarrow> bool" where "flag_z s = (F s AND FLAG_Z \<noteq> 0)"
definition flag_s :: "State8080 \<Rightarrow> bool" where "flag_s s = (F s AND FLAG_S \<noteq> 0)"

text \<open>\<^verbatim>\<open>v ? (F |= FLAG) : (F &= ~FLAG)\<close>, the result truncated to 8 bits.\<close>

definition set_cy :: "State8080 \<Rightarrow> bool \<Rightarrow> State8080" where
  "set_cy s v = (if v then s\<lparr>F := F s OR FLAG_CY\<rparr> else s\<lparr>F := F s AND NOT FLAG_CY\<rparr>)"
definition set_p :: "State8080 \<Rightarrow> bool \<Rightarrow> State8080" where
  "set_p s v = (if v then s\<lparr>F := F s OR FLAG_P\<rparr> else s\<lparr>F := F s AND NOT FLAG_P\<rparr>)"
definition set_ac :: "State8080 \<Rightarrow> bool \<Rightarrow> State8080" where
  "set_ac s v = (if v then s\<lparr>F := F s OR FLAG_AC\<rparr> else s\<lparr>F := F s AND NOT FLAG_AC\<rparr>)"
definition set_z :: "State8080 \<Rightarrow> bool \<Rightarrow> State8080" where
  "set_z s v = (if v then s\<lparr>F := F s OR FLAG_Z\<rparr> else s\<lparr>F := F s AND NOT FLAG_Z\<rparr>)"
definition set_s :: "State8080 \<Rightarrow> bool \<Rightarrow> State8080" where
  "set_s s v = (if v then s\<lparr>F := F s OR FLAG_S\<rparr> else s\<lparr>F := F s AND NOT FLAG_S\<rparr>)"

subsection \<open>Register-pair helpers\<close>

definition pair16 :: "u8 \<Rightarrow> u8 \<Rightarrow> u16" where
  "pair16 hi lo = push_bit 8 (ucast hi) OR ucast lo"

definition BC :: "State8080 \<Rightarrow> u16" where "BC s = pair16 (B s) (C s)"
definition DE :: "State8080 \<Rightarrow> u16" where "DE s = pair16 (D s) (E s)"
definition HL :: "State8080 \<Rightarrow> u16" where "HL s = pair16 (H s) (L s)"

definition setBC :: "State8080 \<Rightarrow> u16 \<Rightarrow> State8080" where
  "setBC s v = s\<lparr>B := ucast (drop_bit 8 v), C := ucast (v AND 0xFF)\<rparr>"
definition setDE :: "State8080 \<Rightarrow> u16 \<Rightarrow> State8080" where
  "setDE s v = s\<lparr>D := ucast (drop_bit 8 v), E := ucast (v AND 0xFF)\<rparr>"
definition setHL :: "State8080 \<Rightarrow> u16 \<Rightarrow> State8080" where
  "setHL s v = s\<lparr>H := ucast (drop_bit 8 v), L := ucast (v AND 0xFF)\<rparr>"

definition PSW :: "State8080 \<Rightarrow> u16" where "PSW s = pair16 (A s) (F s)"
definition setPSW :: "State8080 \<Rightarrow> u16 \<Rightarrow> State8080" where
  "setPSW s v = s\<lparr>A := ucast (drop_bit 8 v), F := ucast (v AND 0xFF) OR FLAG_FIXED\<rparr>"

subsection \<open>Memory helpers\<close>

text \<open>
  \<^verbatim>\<open>mem[i]\<close> for an index \<open>i\<close> that the source computes as an \<^verbatim>\<open>int\<close>
  (\<^verbatim>\<open>addr + 1\<close> with \<^verbatim>\<open>addr\<close> a \<^verbatim>\<open>uint16_t\<close> is promoted to \<^verbatim>\<open>int\<close> and
  is not reduced modulo \<open>2^16\<close>). An index that is a \<^verbatim>\<open>uint16_t\<close> is always inside the
  array and is modelled by applying \<open>mem s\<close> directly.
\<close>

definition mem_get :: "State8080 \<Rightarrow> int \<Rightarrow> error + u8" where
  "mem_get s i = (if 0 \<le> i \<and> i < 0x10000 then Inr (mem s (word_of_int i)) else Inl (OutOfBounds i))"

definition mem_set :: "State8080 \<Rightarrow> int \<Rightarrow> u8 \<Rightarrow> error + State8080" where
  "mem_set s i v = (if 0 \<le> i \<and> i < 0x10000 then Inr (s\<lparr>mem := (mem s)(word_of_int i := v)\<rparr>)
     else Inl (OutOfBounds i))"

definition read8 :: "State8080 \<Rightarrow> u16 \<Rightarrow> u8" where
  "read8 s addr = mem s addr"

definition read16 :: "State8080 \<Rightarrow> u16 \<Rightarrow> error + u16" where
  "read16 s addr =
     (let lo = mem s addr in
      case mem_get s (uint addr + 1) of
        Inl e \<Rightarrow> Inl e
      | Inr hi \<Rightarrow> Inr (ucast lo OR push_bit 8 (ucast hi)))"

definition write8 :: "State8080 \<Rightarrow> u16 \<Rightarrow> u8 \<Rightarrow> State8080" where
  "write8 s addr v = s\<lparr>mem := (mem s)(addr := v)\<rparr>"

definition write16 :: "State8080 \<Rightarrow> u16 \<Rightarrow> u16 \<Rightarrow> error + State8080" where
  "write16 s addr v =
     (let s1 = s\<lparr>mem := (mem s)(addr := ucast (v AND 0xFF))\<rparr>
      in mem_set s1 (uint addr + 1) (ucast (drop_bit 8 v)))"

text \<open>The fetch helpers return the value fetched and the state with \<open>PC\<close> advanced.\<close>

definition next8 :: "State8080 \<Rightarrow> u8 \<times> State8080" where
  "next8 s = (mem s (PC s), s\<lparr>PC := PC s + 1\<rparr>)"

definition next16 :: "State8080 \<Rightarrow> u16 \<times> State8080" where
  "next16 s =
     (let (lo, s1) = next8 s; (hi, s2) = next8 s1
      in (ucast lo OR push_bit 8 (ucast hi), s2))"

definition push16 :: "State8080 \<Rightarrow> u16 \<Rightarrow> error + State8080" where
  "push16 s v = (let s1 = s\<lparr>SP := SP s - 2\<rparr> in write16 s1 (SP s1) v)"

definition pop16 :: "State8080 \<Rightarrow> error + (u16 \<times> State8080)" where
  "pop16 s =
     (case read16 s (SP s) of
        Inl e \<Rightarrow> Inl e
      | Inr v \<Rightarrow> Inr (v, s\<lparr>SP := SP s + 2\<rparr>))"

text \<open>
  The I/O bus: two optional handlers. A handler is host code with effects of its own;
  it acts on a host state of type \<open>'w\<close> that the step function threads through.
\<close>

record 'w IOBus =
  in_handler :: "(u8 \<Rightarrow> 'w \<Rightarrow> u8 \<times> 'w) option"
  out_handler :: "(u8 \<Rightarrow> u8 \<Rightarrow> 'w \<Rightarrow> 'w) option"

section \<open>Internal helpers (cpu8080.cpp)\<close>

definition parity :: "u8 \<Rightarrow> bool" where
  "parity v =
     (let v1 = v XOR drop_bit 4 v;
          v2 = v1 XOR drop_bit 2 v1;
          v3 = v2 XOR drop_bit 1 v2
      in v3 AND 1 = 0)"

definition update_szp :: "State8080 \<Rightarrow> u8 \<Rightarrow> State8080" where
  "update_szp s result =
     (let s1 = set_s s (result AND 0x80 \<noteq> 0);
          s2 = set_z s1 (result = 0)
      in set_p s2 (parity result))"

text \<open>
  The operands of the nibble tests are promoted to \<^verbatim>\<open>int\<close> in the source, so the
  sums and differences are computed over the integers.
\<close>

definition update_flags_add :: "State8080 \<Rightarrow> u16 \<Rightarrow> u8 \<Rightarrow> u8 \<Rightarrow> u8 \<Rightarrow> State8080" where
  "update_flags_add s full lhs rhs carry_in =
     (let result = (ucast full :: u8);
          s1 = update_szp s result;
          s2 = set_cy s1 (full > 0xFF)
      in set_ac s2 (uint (lhs AND 0x0F) + uint (rhs AND 0x0F) + uint carry_in > 0x0F))"

definition update_flags_sub :: "State8080 \<Rightarrow> u8 \<Rightarrow> u8 \<Rightarrow> u8 \<Rightarrow> State8080" where
  "update_flags_sub s lhs rhs borrow_in =
     (let full = (word_of_int (uint lhs - uint rhs - uint borrow_in) :: u16);
          result = (ucast full :: u8);
          s1 = update_szp s result;
          s2 = set_cy s1 (full > 0xFF)
      in set_ac s2 (uint (lhs AND 0x0F) - uint (rhs AND 0x0F) - uint borrow_in < 0))"

subsection \<open>Decode helpers\<close>

definition reg_read :: "State8080 \<Rightarrow> u8 \<Rightarrow> u8" where
  "reg_read s field =
     (let f = field AND 0x07 in
      if f = 0 then B s
      else if f = 1 then C s
      else if f = 2 then D s
      else if f = 3 then E s
      else if f = 4 then H s
      else if f = 5 then L s
      else if f = 6 then mem s (HL s)
      else if f = 7 then A s
      else 0)"

definition reg_write :: "State8080 \<Rightarrow> u8 \<Rightarrow> u8 \<Rightarrow> State8080" where
  "reg_write s field val =
     (let f = field AND 0x07 in
      if f = 0 then s\<lparr>B := val\<rparr>
      else if f = 1 then s\<lparr>C := val\<rparr>
      else if f = 2 then s\<lparr>D := val\<rparr>
      else if f = 3 then s\<lparr>E := val\<rparr>
      else if f = 4 then s\<lparr>H := val\<rparr>
      else if f = 5 then s\<lparr>L := val\<rparr>
      else if f = 6 then s\<lparr>mem := (mem s)(HL s := val)\<rparr>
      else if f = 7 then s\<lparr>A := val\<rparr>
      else s)"

definition rp_read :: "State8080 \<Rightarrow> u8 \<Rightarrow> u16" where
  "rp_read s rp =
     (let r = rp AND 0x03 in
      if r = 0 then BC s
      else if r = 1 then DE s
      else if r = 2 then HL s
      else if r = 3 then SP s
      else 0)"

definition rp_write :: "State8080 \<Rightarrow> u8 \<Rightarrow> u16 \<Rightarrow> State8080" where
  "rp_write s rp val =
     (let r = rp AND 0x03 in
      if r = 0 then setBC s val
      else if r = 1 then setDE s val
      else if r = 2 then setHL s val
      else if r = 3 then s\<lparr>SP := val\<rparr>
      else s)"

definition rp_read_psw :: "State8080 \<Rightarrow> u8 \<Rightarrow> u16" where
  "rp_read_psw s rp = (if rp AND 0x03 = 3 then PSW s else rp_read s rp)"

definition rp_write_psw :: "State8080 \<Rightarrow> u8 \<Rightarrow> u16 \<Rightarrow> State8080" where
  "rp_write_psw s rp val = (if rp AND 0x03 = 3 then setPSW s val else rp_write s rp val)"

definition condition :: "State8080 \<Rightarrow> u8 \<Rightarrow> bool" where
  "condition s ccc =
     (let c = ccc AND 0x07 in
      if c = 0 then \<not> flag_z s
      else if c = 1 then flag_z s
      else if c = 2 then \<not> flag_cy s
      else if c = 3 then flag_cy s
      else if c = 4 then \<not> flag_p s
      else if c = 5 then flag_p s
      else if c = 6 then \<not> flag_s s
      else if c = 7 then flag_s s
      else False)"

section \<open>The instruction step (cpu8080.cpp, \<^verbatim>\<open>Step8080\<close>)\<close>

text \<open>
  One definition for each case body of the \<^verbatim>\<open>switch\<close>. Each takes the state after the
  opcode fetch and returns the cycle count with the new state. The bodies that use the
  stack or a 16-bit memory word can fail; \<^verbatim>\<open>IN\<close> and \<^verbatim>\<open>OUT\<close> also act on the host state.
\<close>

definition op_MVI :: "State8080 \<Rightarrow> u8 \<Rightarrow> int \<times> State8080" where
  "op_MVI s ddd =
     (let (imm, s1) = next8 s
      in (if ddd = 6 then 10 else 7, reg_write s1 ddd imm))"

definition op_LXI :: "State8080 \<Rightarrow> u8 \<Rightarrow> int \<times> State8080" where
  "op_LXI s rp = (let (imm, s1) = next16 s in (10, rp_write s1 rp imm))"

definition op_LDA :: "State8080 \<Rightarrow> int \<times> State8080" where
  "op_LDA s = (let (addr, s1) = next16 s in (13, s1\<lparr>A := read8 s1 addr\<rparr>))"

definition op_STA :: "State8080 \<Rightarrow> int \<times> State8080" where
  "op_STA s = (let (addr, s1) = next16 s in (13, write8 s1 addr (A s1)))"

definition op_LHLD :: "State8080 \<Rightarrow> int \<times> State8080" where
  "op_LHLD s =
     (let (addr, s1) = next16 s;
          s2 = s1\<lparr>L := read8 s1 addr\<rparr>
      in (16, s2\<lparr>H := read8 s2 (addr + 1)\<rparr>))"

definition op_SHLD :: "State8080 \<Rightarrow> int \<times> State8080" where
  "op_SHLD s =
     (let (addr, s1) = next16 s;
          s2 = write8 s1 addr (L s1)
      in (16, write8 s2 (addr + 1) (H s2)))"

definition op_XCHG :: "State8080 \<Rightarrow> int \<times> State8080" where
  "op_XCHG s =
     (let tmp = HL s;
          s1 = setHL s (DE s)
      in (4, setDE s1 tmp))"

definition op_ADD :: "State8080 \<Rightarrow> u8 \<Rightarrow> int \<times> State8080" where
  "op_ADD s sss =
     (let rval = reg_read s sss;
          res = (word_of_int (uint (A s) + uint rval) :: u16);
          s1 = update_flags_add s res (A s) rval 0
      in (if sss = 6 then 7 else 4, s1\<lparr>A := ucast res\<rparr>))"

definition op_ADI :: "State8080 \<Rightarrow> int \<times> State8080" where
  "op_ADI s =
     (let (imm, s1) = next8 s;
          res = (word_of_int (uint (A s1) + uint imm) :: u16);
          s2 = update_flags_add s1 res (A s1) imm 0
      in (7, s2\<lparr>A := ucast res\<rparr>))"

definition op_ADC :: "State8080 \<Rightarrow> u8 \<Rightarrow> int \<times> State8080" where
  "op_ADC s sss =
     (let rval = reg_read s sss;
          cy = (if flag_cy s then 1 else 0 :: u8);
          res = (word_of_int (uint (A s) + uint rval + uint cy) :: u16);
          s1 = update_flags_add s res (A s) rval cy
      in (if sss = 6 then 7 else 4, s1\<lparr>A := ucast res\<rparr>))"

definition op_ACI :: "State8080 \<Rightarrow> int \<times> State8080" where
  "op_ACI s =
     (let (imm, s1) = next8 s;
          cy = (if flag_cy s1 then 1 else 0 :: u8);
          res = (word_of_int (uint (A s1) + uint imm + uint cy) :: u16);
          s2 = update_flags_add s1 res (A s1) imm cy
      in (7, s2\<lparr>A := ucast res\<rparr>))"

definition op_SUB :: "State8080 \<Rightarrow> u8 \<Rightarrow> int \<times> State8080" where
  "op_SUB s sss =
     (let rval = reg_read s sss;
          prev = A s;
          s1 = update_flags_sub s (A s) rval 0
      in (if sss = 6 then 7 else 4, s1\<lparr>A := prev - rval\<rparr>))"

definition op_SUI :: "State8080 \<Rightarrow> int \<times> State8080" where
  "op_SUI s =
     (let (imm, s1) = next8 s;
          prev = A s1;
          s2 = update_flags_sub s1 (A s1) imm 0
      in (7, s2\<lparr>A := prev - imm\<rparr>))"

definition op_SBB :: "State8080 \<Rightarrow> u8 \<Rightarrow> int \<times> State8080" where
  "op_SBB s sss =
     (let rval = reg_read s sss;
          cy = (if flag_cy s then 1 else 0 :: u8);
          prev = A s;
          s1 = update_flags_sub s (A s) rval cy
      in (if sss = 6 then 7 else 4, s1\<lparr>A := prev - rval - cy\<rparr>))"

definition op_SBI :: "State8080 \<Rightarrow> int \<times> State8080" where
  "op_SBI s =
     (let (imm, s1) = next8 s;
          cy = (if flag_cy s1 then 1 else 0 :: u8);
          prev = A s1;
          s2 = update_flags_sub s1 (A s1) imm cy
      in (7, s2\<lparr>A := prev - imm - cy\<rparr>))"

definition op_INR :: "State8080 \<Rightarrow> u8 \<Rightarrow> int \<times> State8080" where
  "op_INR s ddd =
     (let v = reg_read s ddd;
          res = v + 1;
          s1 = set_ac s (v AND 0x0F = 0x0F);
          s2 = update_szp s1 res
      in (if ddd = 6 then 10 else 5, reg_write s2 ddd res))"

definition op_DCR :: "State8080 \<Rightarrow> u8 \<Rightarrow> int \<times> State8080" where
  "op_DCR s ddd =
     (let v = reg_read s ddd;
          res = v - 1;
          s1 = set_ac s (v AND 0x0F = 0x00);
          s2 = update_szp s1 res
      in (if ddd = 6 then 10 else 5, reg_write s2 ddd res))"

definition op_INX :: "State8080 \<Rightarrow> u8 \<Rightarrow> int \<times> State8080" where
  "op_INX s rp = (5, rp_write s rp (rp_read s rp + 1))"

definition op_DCX :: "State8080 \<Rightarrow> u8 \<Rightarrow> int \<times> State8080" where
  "op_DCX s rp = (5, rp_write s rp (rp_read s rp - 1))"

definition op_DAD :: "State8080 \<Rightarrow> u8 \<Rightarrow> int \<times> State8080" where
  "op_DAD s rp =
     (let res = uint (HL s) + uint (rp_read s rp);
          s1 = set_cy s (res > 0xFFFF)
      in (10, setHL s1 (word_of_int res)))"

definition op_DAA :: "State8080 \<Rightarrow> int \<times> State8080" where
  "op_DAA s =
     (let lo = A s AND 0x0F;
          corr0 = (if flag_ac s \<or> lo > 9 then 0x06 else 0 :: u8);
          high = (flag_cy s \<or> A s > 0x99);
          corr = (if high then corr0 OR 0x60 else corr0);
          new_cy = high;
          s1 = set_ac s (uint (A s AND 0x0F) + uint (corr AND 0x0F) > 0x0F);
          s2 = s1\<lparr>A := A s1 + corr\<rparr>;
          s3 = update_szp s2 (A s2)
      in (4, set_cy s3 new_cy))"

definition op_ANA :: "State8080 \<Rightarrow> u8 \<Rightarrow> int \<times> State8080" where
  "op_ANA s sss =
     (let rval = reg_read s sss;
          s1 = set_ac s ((A s OR rval) AND 0x08 \<noteq> 0);
          s2 = s1\<lparr>A := A s1 AND rval\<rparr>;
          s3 = update_szp s2 (A s2)
      in (if sss = 6 then 7 else 4, set_cy s3 False))"

definition op_ANI :: "State8080 \<Rightarrow> int \<times> State8080" where
  "op_ANI s =
     (let (imm, s0) = next8 s;
          s1 = set_ac s0 ((A s0 OR imm) AND 0x08 \<noteq> 0);
          s2 = s1\<lparr>A := A s1 AND imm\<rparr>;
          s3 = update_szp s2 (A s2)
      in (7, set_cy s3 False))"

definition op_ORA :: "State8080 \<Rightarrow> u8 \<Rightarrow> int \<times> State8080" where
  "op_ORA s sss =
     (let s1 = s\<lparr>A := A s OR reg_read s sss\<rparr>;
          s2 = update_szp s1 (A s1);
          s3 = set_cy s2 False
      in (if sss = 6 then 7 else 4, set_ac s3 False))"

definition op_ORI :: "State8080 \<Rightarrow> int \<times> State8080" where
  "op_ORI s =
     (let (imm, s0) = next8 s;
          s1 = s0\<lparr>A := A s0 OR imm\<rparr>;
          s2 = update_szp s1 (A s1);
          s3 = set_cy s2 False
      in (7, set_ac s3 False))"

definition op_XRA :: "State8080 \<Rightarrow> u8 \<Rightarrow> int \<times> State8080" where
  "op_XRA s sss =
     (let s1 = s\<lparr>A := A s XOR reg_read s sss\<rparr>;
          s2 = update_szp s1 (A s1);
          s3 = set_cy s2 False
      in (if sss = 6 then 7 else 4, set_ac s3 False))"

definition op_XRI :: "State8080 \<Rightarrow> int \<times> State8080" where
  "op_XRI s =
     (let (imm, s0) = next8 s;
          s1 = s0\<lparr>A := A s0 XOR imm\<rparr>;
          s2 = update_szp s1 (A s1);
          s3 = set_cy s2 False
      in (7, set_ac s3 False))"

definition op_CMP :: "State8080 \<Rightarrow> u8 \<Rightarrow> int \<times> State8080" where
  "op_CMP s sss =
     (let rval = reg_read s sss
      in (if sss = 6 then 7 else 4, update_flags_sub s (A s) rval 0))"

definition op_CPI :: "State8080 \<Rightarrow> int \<times> State8080" where
  "op_CPI s = (let (imm, s1) = next8 s in (7, update_flags_sub s1 (A s1) imm 0))"

definition op_RLC :: "State8080 \<Rightarrow> int \<times> State8080" where
  "op_RLC s =
     (let msb = drop_bit 7 (A s) AND 1;
          s1 = s\<lparr>A := push_bit 1 (A s) OR msb\<rparr>
      in (4, set_cy s1 (msb \<noteq> 0)))"

definition op_RRC :: "State8080 \<Rightarrow> int \<times> State8080" where
  "op_RRC s =
     (let lsb = A s AND 1;
          s1 = s\<lparr>A := drop_bit 1 (A s) OR push_bit 7 lsb\<rparr>
      in (4, set_cy s1 (lsb \<noteq> 0)))"

definition op_RAL :: "State8080 \<Rightarrow> int \<times> State8080" where
  "op_RAL s =
     (let msb = drop_bit 7 (A s) AND 1;
          s1 = s\<lparr>A := push_bit 1 (A s) OR (if flag_cy s then 1 else 0)\<rparr>
      in (4, set_cy s1 (msb \<noteq> 0)))"

definition op_RAR :: "State8080 \<Rightarrow> int \<times> State8080" where
  "op_RAR s =
     (let lsb = A s AND 1;
          s1 = s\<lparr>A := drop_bit 1 (A s) OR (if flag_cy s then 0x80 else 0x00)\<rparr>
      in (4, set_cy s1 (lsb \<noteq> 0)))"

definition op_JMP :: "State8080 \<Rightarrow> int \<times> State8080" where
  "op_JMP s = (let (addr, s1) = next16 s in (10, s1\<lparr>PC := addr\<rparr>))"

definition op_Jccc :: "State8080 \<Rightarrow> u8 \<Rightarrow> int \<times> State8080" where
  "op_Jccc s opcode =
     (let (addr, s1) = next16 s;
          ccc = drop_bit 3 opcode AND 0x07
      in (10, if condition s1 ccc then s1\<lparr>PC := addr\<rparr> else s1))"

definition op_CALL :: "State8080 \<Rightarrow> error + (int \<times> State8080)" where
  "op_CALL s =
     (let (addr, s1) = next16 s in
      case push16 s1 (PC s1) of
        Inl e \<Rightarrow> Inl e
      | Inr s2 \<Rightarrow> Inr (17, s2\<lparr>PC := addr\<rparr>))"

definition op_Cccc :: "State8080 \<Rightarrow> u8 \<Rightarrow> error + (int \<times> State8080)" where
  "op_Cccc s opcode =
     (let (addr, s1) = next16 s;
          ccc = drop_bit 3 opcode AND 0x07 in
      if condition s1 ccc then
        (case push16 s1 (PC s1) of
           Inl e \<Rightarrow> Inl e
         | Inr s2 \<Rightarrow> Inr (17, s2\<lparr>PC := addr\<rparr>))
      else Inr (11, s1))"

definition op_RET :: "State8080 \<Rightarrow> error + (int \<times> State8080)" where
  "op_RET s =
     (case pop16 s of
        Inl e \<Rightarrow> Inl e
      | Inr (v, s1) \<Rightarrow> Inr (10, s1\<lparr>PC := v\<rparr>))"

definition op_Rccc :: "State8080 \<Rightarrow> u8 \<Rightarrow> error + (int \<times> State8080)" where
  "op_Rccc s opcode =
     (let ccc = drop_bit 3 opcode AND 0x07 in
      if condition s ccc then
        (case pop16 s of
           Inl e \<Rightarrow> Inl e
         | Inr (v, s1) \<Rightarrow> Inr (11, s1\<lparr>PC := v\<rparr>))
      else Inr (5, s))"

definition op_RST :: "State8080 \<Rightarrow> u8 \<Rightarrow> error + (int \<times> State8080)" where
  "op_RST s opcode =
     (case push16 s (PC s) of
        Inl e \<Rightarrow> Inl e
      | Inr s1 \<Rightarrow> Inr (11, s1\<lparr>PC := ucast (opcode AND 0x38)\<rparr>))"

definition op_PUSH :: "State8080 \<Rightarrow> u8 \<Rightarrow> error + (int \<times> State8080)" where
  "op_PUSH s rp =
     (case push16 s (rp_read_psw s rp) of
        Inl e \<Rightarrow> Inl e
      | Inr s1 \<Rightarrow> Inr (11, s1))"

definition op_POP :: "State8080 \<Rightarrow> u8 \<Rightarrow> error + (int \<times> State8080)" where
  "op_POP s rp =
     (case pop16 s of
        Inl e \<Rightarrow> Inl e
      | Inr (v, s1) \<Rightarrow> Inr (10, rp_write_psw s1 rp v))"

definition op_XTHL :: "State8080 \<Rightarrow> error + (int \<times> State8080)" where
  "op_XTHL s =
     (case read16 s (SP s) of
        Inl e \<Rightarrow> Inl e
      | Inr tos \<Rightarrow>
          (case write16 s (SP s) (HL s) of
             Inl e \<Rightarrow> Inl e
           | Inr s1 \<Rightarrow> Inr (18, setHL s1 tos)))"

definition op_IN :: "State8080 \<Rightarrow> 'w IOBus \<Rightarrow> 'w \<Rightarrow> int \<times> State8080 \<times> 'w" where
  "op_IN s io w =
     (let (port, s1) = next8 s in
      case in_handler io of
        Some h \<Rightarrow> (let (v, w1) = h port w in (10, s1\<lparr>A := v\<rparr>, w1))
      | None \<Rightarrow> (10, s1\<lparr>A := 0xFF\<rparr>, w))"

definition op_OUT :: "State8080 \<Rightarrow> 'w IOBus \<Rightarrow> 'w \<Rightarrow> int \<times> State8080 \<times> 'w" where
  "op_OUT s io w =
     (let (port, s1) = next8 s in
      case out_handler io of
        Some h \<Rightarrow> (10, s1, h port (A s1) w)
      | None \<Rightarrow> (10, s1, w))"

definition op_MOV :: "State8080 \<Rightarrow> u8 \<Rightarrow> u8 \<Rightarrow> int \<times> State8080" where
  "op_MOV s ddd sss =
     (let src = reg_read s sss;
          s1 = reg_write s ddd src
      in (if sss = 6 \<or> ddd = 6 then 7 else 5, s1))"

text \<open>How a case body's result becomes the result of the step.\<close>

definition ret :: "int \<times> State8080 \<Rightarrow> 'w \<Rightarrow> error + (int \<times> State8080 \<times> 'w)" where
  "ret r w = Inr (fst r, snd r, w)"

definition ret_stack :: "error + (int \<times> State8080) \<Rightarrow> 'w \<Rightarrow> error + (int \<times> State8080 \<times> 'w)" where
  "ret_stack r w = (case r of Inl e \<Rightarrow> Inl e | Inr (c, s) \<Rightarrow> Inr (c, s, w))"

text \<open>
  \<^verbatim>\<open>Step8080\<close>: the halt test, the opcode fetch, the bit fields, and the \<^verbatim>\<open>switch\<close>
  in the order of the source. The \<^verbatim>\<open>default\<close> label holds the \<^verbatim>\<open>MOV\<close> block and the
  4-cycle fall-back.
\<close>

definition Step8080 :: "State8080 \<Rightarrow> 'w IOBus \<Rightarrow> 'w \<Rightarrow> error + (int \<times> State8080 \<times> 'w)" where
  "Step8080 s0 io w =
     (if halted s0 then Inr (4, s0, w)
      else
        let (opcode, s) = next8 s0;
            ddd = drop_bit 3 opcode AND 0x07;
            sss = opcode AND 0x07;
            rp = drop_bit 4 opcode AND 0x03
        in
        if opcode \<in> {0x00, 0x08, 0x10, 0x18, 0x20, 0x28, 0x30, 0x38} then ret (4, s) w
        else if opcode = 0x76 then ret (7, s\<lparr>halted := True\<rparr>) w
        else if opcode \<in> {0x06, 0x0E, 0x16, 0x1E, 0x26, 0x2E, 0x36, 0x3E} then ret (op_MVI s ddd) w
        else if opcode \<in> {0x01, 0x11, 0x21, 0x31} then ret (op_LXI s rp) w
        else if opcode = 0x3A then ret (op_LDA s) w
        else if opcode = 0x32 then ret (op_STA s) w
        else if opcode = 0x2A then ret (op_LHLD s) w
        else if opcode = 0x22 then ret (op_SHLD s) w
        else if opcode = 0x0A then ret (7, s\<lparr>A := read8 s (BC s)\<rparr>) w
        else if opcode = 0x1A then ret (7, s\<lparr>A := read8 s (DE s)\<rparr>) w
        else if opcode = 0x02 then ret (7, write8 s (BC s) (A s)) w
        else if opcode = 0x12 then ret (7, write8 s (DE s) (A s)) w
        else if opcode = 0xEB then ret (op_XCHG s) w
        else if opcode \<in> {0x80, 0x81, 0x82, 0x83, 0x84, 0x85, 0x86, 0x87} then ret (op_ADD s sss) w
        else if opcode = 0xC6 then ret (op_ADI s) w
        else if opcode \<in> {0x88, 0x89, 0x8A, 0x8B, 0x8C, 0x8D, 0x8E, 0x8F} then ret (op_ADC s sss) w
        else if opcode = 0xCE then ret (op_ACI s) w
        else if opcode \<in> {0x90, 0x91, 0x92, 0x93, 0x94, 0x95, 0x96, 0x97} then ret (op_SUB s sss) w
        else if opcode = 0xD6 then ret (op_SUI s) w
        else if opcode \<in> {0x98, 0x99, 0x9A, 0x9B, 0x9C, 0x9D, 0x9E, 0x9F} then ret (op_SBB s sss) w
        else if opcode = 0xDE then ret (op_SBI s) w
        else if opcode \<in> {0x04, 0x0C, 0x14, 0x1C, 0x24, 0x2C, 0x34, 0x3C} then ret (op_INR s ddd) w
        else if opcode \<in> {0x05, 0x0D, 0x15, 0x1D, 0x25, 0x2D, 0x35, 0x3D} then ret (op_DCR s ddd) w
        else if opcode \<in> {0x03, 0x13, 0x23, 0x33} then ret (op_INX s rp) w
        else if opcode \<in> {0x0B, 0x1B, 0x2B, 0x3B} then ret (op_DCX s rp) w
        else if opcode \<in> {0x09, 0x19, 0x29, 0x39} then ret (op_DAD s rp) w
        else if opcode = 0x27 then ret (op_DAA s) w
        else if opcode \<in> {0xA0, 0xA1, 0xA2, 0xA3, 0xA4, 0xA5, 0xA6, 0xA7} then ret (op_ANA s sss) w
        else if opcode = 0xE6 then ret (op_ANI s) w
        else if opcode \<in> {0xB0, 0xB1, 0xB2, 0xB3, 0xB4, 0xB5, 0xB6, 0xB7} then ret (op_ORA s sss) w
        else if opcode = 0xF6 then ret (op_ORI s) w
        else if opcode \<in> {0xA8, 0xA9, 0xAA, 0xAB, 0xAC, 0xAD, 0xAE, 0xAF} then ret (op_XRA s sss) w
        else if opcode = 0xEE then ret (op_XRI s) w
        else if opcode \<in> {0xB8, 0xB9, 0xBA, 0xBB, 0xBC, 0xBD, 0xBE, 0xBF} then ret (op_CMP s sss) w
        else if opcode = 0xFE then ret (op_CPI s) w
        else if opcode = 0x07 then ret (op_RLC s) w
        else if opcode = 0x0F then ret (op_RRC s) w
        else if opcode = 0x17 then ret (op_RAL s) w
        else if opcode = 0x1F then ret (op_RAR s) w
        else if opcode = 0x2F then ret (4, s\<lparr>A := NOT (A s)\<rparr>) w
        else if opcode = 0x3F then ret (4, set_cy s (\<not> flag_cy s)) w
        else if opcode = 0x37 then ret (4, set_cy s True) w
        else if opcode \<in> {0xC3, 0xCB} then ret (op_JMP s) w
        else if opcode \<in> {0xC2, 0xCA, 0xD2, 0xDA, 0xE2, 0xEA, 0xF2, 0xFA} then ret (op_Jccc s opcode) w
        else if opcode \<in> {0xCD, 0xDD, 0xED, 0xFD} then ret_stack (op_CALL s) w
        else if opcode \<in> {0xC4, 0xCC, 0xD4, 0xDC, 0xE4, 0xEC, 0xF4, 0xFC} then ret_stack (op_Cccc s opcode) w
        else if opcode \<in> {0xC9, 0xD9} then ret_stack (op_RET s) w
        else if opcode \<in> {0xC0, 0xC8, 0xD0, 0xD8, 0xE0, 0xE8, 0xF0, 0xF8} then ret_stack (op_Rccc s opcode) w
        else if opcode \<in> {0xC7, 0xCF, 0xD7, 0xDF, 0xE7, 0xEF, 0xF7, 0xFF} then ret_stack (op_RST s opcode) w
        else if opcode = 0xE9 then ret (5, s\<lparr>PC := HL s\<rparr>) w
        else if opcode \<in> {0xC5, 0xD5, 0xE5, 0xF5} then ret_stack (op_PUSH s rp) w
        else if opcode \<in> {0xC1, 0xD1, 0xE1, 0xF1} then ret_stack (op_POP s rp) w
        else if opcode = 0xE3 then ret_stack (op_XTHL s) w
        else if opcode = 0xF9 then ret (5, s\<lparr>SP := HL s\<rparr>) w
        else if opcode = 0xDB then Inr (op_IN s io w)
        else if opcode = 0xD3 then Inr (op_OUT s io w)
        else if opcode = 0xFB then ret (4, s\<lparr>inte := True\<rparr>) w
        else if opcode = 0xF3 then ret (4, s\<lparr>inte := False\<rparr>) w
        else if 0x40 \<le> opcode \<and> opcode \<le> 0x7F then ret (op_MOV s ddd sss) w
        else ret (4, s) w)"

section \<open>The loader (cpu8080.cpp, \<^verbatim>\<open>LoadBinary\<close>)\<close>

text \<open>
  The host file system is a map from paths to file contents; a path with no entry cannot
  be opened. \<^verbatim>\<open>fread\<close> copies the file's bytes to \<^verbatim>\<open>mem.data() + offset\<close> onwards.
\<close>

fun fread :: "(u16 \<Rightarrow> u8) \<Rightarrow> nat \<Rightarrow> u8 list \<Rightarrow> (u16 \<Rightarrow> u8)" where
  "fread m i [] = m"
| "fread m i (b # bs) = fread (m(of_nat i := b)) (Suc i) bs"

text \<open>
  \<^verbatim>\<open>LoadBinary\<close> changes the state through a reference and reports failure by throwing.
  The model returns the state as it is when the call ends, with the exception thrown, if
  any.
\<close>

definition LoadBinary :: "State8080 \<Rightarrow> (string \<Rightarrow> u8 list option) \<Rightarrow> string \<Rightarrow> u16 \<Rightarrow> State8080 \<times> error option" where
  "LoadBinary state fs path offset =
     (case fs path of
        None \<Rightarrow> (state, Some (RuntimeError (''Cannot open: '' @ path)))
      | Some bytes \<Rightarrow>
          (let size = int (length bytes) in
           if size < 0 \<or> size > 0x10000 - uint offset
           then (state, Some (RuntimeError ''Binary too large for memory at given offset''))
           else (state\<lparr>mem := fread (mem state) (unat offset) bytes\<rparr>, None)))"

section \<open>The CP/M BDOS hook (main.cpp, \<^verbatim>\<open>cpm_bdos\<close>)\<close>

text \<open>
  The loop of BDOS function 9: \<^verbatim>\<open>while (s.mem[addr] != '$') putchar(s.mem[addr++])\<close>,
  with \<open>addr\<close> a \<^verbatim>\<open>uint16_t\<close>. Standard output is the list of bytes written so far. The
  loop has no bound in the source, so its model is a partial function: \<open>None\<close> means
  that it does not return.
\<close>

partial_function (option) bdos_print_string :: "(u16 \<Rightarrow> u8) \<Rightarrow> u16 \<Rightarrow> u8 list \<Rightarrow> u8 list option" where
  "bdos_print_string m addr out =
     (if m addr \<noteq> 0x24 then bdos_print_string m (addr + 1) (out @ [m addr]) else Some out)"

definition cpm_bdos :: "State8080 \<Rightarrow> u8 list \<Rightarrow> (error + (bool \<times> State8080 \<times> u8 list)) option" where
  "cpm_bdos s out =
     (if PC s \<noteq> 0x0005 then Some (Inr (False, s, out))
      else
        case (if C s = 2 then Some (out @ [E s])
              else if C s = 9 then
                (case bdos_print_string (mem s) (DE s) out of
                   None \<Rightarrow> None
                 | Some out1 \<Rightarrow> Some (out1 @ [0x0A]))
              else Some out) of
          None \<Rightarrow> None
        | Some out2 \<Rightarrow>
            (case pop16 s of
               Inl e \<Rightarrow> Some (Inl e)
             | Inr (v, s1) \<Rightarrow> Some (Inr (True, s1\<lparr>PC := v\<rparr>, out2))))"

section \<open>Notions of the specification\<close>

text \<open>The number of set bits of a byte.\<close>

definition popcount :: "u8 \<Rightarrow> nat" where
  "popcount v = length (filter (bit v) [0..<8])"

text \<open>
  The sub-class rule as the specification words it. The result is the low 8 bits of
  \<open>lhs - rhs - bin\<close>; S, Z and P come from the result; CY is set iff \<open>lhs < rhs + bin\<close>
  without wrap; AC is set iff the difference of the low nibbles minus the borrow is
  negative over the integers. The remaining bits of \<open>F\<close> (1, 3 and 5) are not touched.
\<close>

definition sub_class_result :: "u8 \<Rightarrow> u8 \<Rightarrow> u8 \<Rightarrow> u8" where
  "sub_class_result lhs rhs bin = word_of_int ((uint lhs - uint rhs - uint bin) mod 256)"

definition sub_class_flags :: "State8080 \<Rightarrow> u8 \<Rightarrow> u8 \<Rightarrow> u8 \<Rightarrow> State8080 \<Rightarrow> bool" where
  "sub_class_flags s lhs rhs bin s' =
     (let r = sub_class_result lhs rhs bin in
      flag_s s' = bit r 7 \<and>
      flag_z s' = (r = 0) \<and>
      flag_p s' = even (popcount r) \<and>
      flag_cy s' = (uint lhs < uint rhs + uint bin) \<and>
      flag_ac s' = (uint (lhs AND 0x0F) - uint (rhs AND 0x0F) - uint bin < 0) \<and>
      F s' AND 0x2A = F s AND 0x2A)"

text \<open>
  The outcome of a sub-class instruction with left operand \<open>A\<close>, right operand \<open>rhs\<close> and
  borrow \<open>bin\<close>: the flags follow the rule, \<open>A\<close> receives the result when the instruction
  stores it (SUB, SUI, SBB, SBI) and is unchanged otherwise (CMP, CPI), \<open>PC\<close> becomes \<open>pc'\<close>,
  and nothing else changes.
\<close>

definition sub_class_outcome :: "State8080 \<Rightarrow> u8 \<Rightarrow> u8 \<Rightarrow> bool \<Rightarrow> u16 \<Rightarrow> State8080 \<Rightarrow> bool" where
  "sub_class_outcome s rhs bin stores pc' s' =
     (sub_class_flags s (A s) rhs bin s' \<and>
      A s' = (if stores then sub_class_result (A s) rhs bin else A s) \<and>
      s' = s\<lparr>A := A s', F := F s', PC := pc'\<rparr>)"

text \<open>
  The correction of the decimal-adjust rule as the specification words it: 0x06 is
  included iff \<open>AC = 1\<close> or the low nibble exceeds 9; 0x60 is added iff \<open>CY = 1\<close> or
  \<open>A > 0x99\<close>.
\<close>

definition daa_correction_spec :: "u8 \<Rightarrow> bool \<Rightarrow> bool \<Rightarrow> u8" where
  "daa_correction_spec a cy ac =
     (if ac \<or> a AND 0x0F > 9 then 0x06 else 0) + (if cy \<or> a > 0x99 then 0x60 else 0)"

text \<open>
  An outcome of a step keeps the fixed flag bits of the flag byte \<open>f\<close>: if the step
  returns, \<open>F\<close> afterwards agrees with \<open>f\<close> on bits 1, 3 and 5.
\<close>

definition keeps_fixed :: "u8 \<Rightarrow> error + (int \<times> State8080 \<times> 'w) \<Rightarrow> bool" where
  "keeps_fixed f r = (case r of Inl e \<Rightarrow> True | Inr (c, s', w') \<Rightarrow> F s' AND 0x2A = f AND 0x2A)"

text \<open>\<open>n\<close> successive calls of the step function; a failing call ends the run.\<close>

fun steps :: "nat \<Rightarrow> State8080 \<Rightarrow> 'w IOBus \<Rightarrow> 'w \<Rightarrow> error + (State8080 \<times> 'w)" where
  "steps 0 s io w = Inr (s, w)"
| "steps (Suc n) s io w =
     (case Step8080 s io w of
        Inl e \<Rightarrow> Inl e
      | Inr (c, s1, w1) \<Rightarrow> steps n s1 io w1)"

text \<open>An I/O bus with no handler, and a program image at the start of a fresh memory.\<close>

definition no_io :: "unit IOBus" where
  "no_io = \<lparr>in_handler = None, out_handler = None\<rparr>"

definition fresh_with :: "u8 list \<Rightarrow> State8080" where
  "fresh_with bytes = fst (LoadBinary init_state (\<lambda>p. Some bytes) ''image'' 0)"

text \<open>The flag word after one flag has been written: bit \<open>k\<close> is the value written.\<close>

definition put_bit :: "nat \<Rightarrow> bool \<Rightarrow> u8 \<Rightarrow> u8" where
  "put_bit k v f = (if v then set_bit k f else unset_bit k f)"

section \<open>Flag bits\<close>

lemma flag_cy_bit: "flag_cy s = bit (F s) 0"
  by (simp add: flag_cy_def FLAG_CY_def bit_iff_and_push_bit_not_eq_0)

lemma flag_p_bit: "flag_p s = bit (F s) 2"
  by (simp add: flag_p_def FLAG_P_def bit_iff_and_push_bit_not_eq_0)

lemma flag_ac_bit: "flag_ac s = bit (F s) 4"
  by (simp add: flag_ac_def FLAG_AC_def bit_iff_and_push_bit_not_eq_0)

lemma flag_z_bit: "flag_z s = bit (F s) 6"
  by (simp add: flag_z_def FLAG_Z_def bit_iff_and_push_bit_not_eq_0)

lemma flag_s_bit: "flag_s s = bit (F s) 7"
  by (simp add: flag_s_def FLAG_S_def bit_iff_and_push_bit_not_eq_0)

lemmas flag_bits = flag_cy_bit flag_p_bit flag_ac_bit flag_z_bit flag_s_bit

lemma set_cy_eq: "set_cy s v = s\<lparr>F := (if v then set_bit 0 (F s) else unset_bit 0 (F s))\<rparr>"
  by (simp add: set_cy_def FLAG_CY_def set_bit_eq_or unset_bit_eq_and_not)

lemma set_p_eq: "set_p s v = s\<lparr>F := (if v then set_bit 2 (F s) else unset_bit 2 (F s))\<rparr>"
  by (simp add: set_p_def FLAG_P_def set_bit_eq_or unset_bit_eq_and_not)

lemma set_ac_eq: "set_ac s v = s\<lparr>F := (if v then set_bit 4 (F s) else unset_bit 4 (F s))\<rparr>"
  by (simp add: set_ac_def FLAG_AC_def set_bit_eq_or unset_bit_eq_and_not)

lemma set_z_eq: "set_z s v = s\<lparr>F := (if v then set_bit 6 (F s) else unset_bit 6 (F s))\<rparr>"
  by (simp add: set_z_def FLAG_Z_def set_bit_eq_or unset_bit_eq_and_not)

lemma set_s_eq: "set_s s v = s\<lparr>F := (if v then set_bit 7 (F s) else unset_bit 7 (F s))\<rparr>"
  by (simp add: set_s_def FLAG_S_def set_bit_eq_or unset_bit_eq_and_not)

lemmas set_flag_eqs = set_cy_eq set_p_eq set_ac_eq set_z_eq set_s_eq

lemma bit_put_bit: "k < 8 \<Longrightarrow> bit (put_bit k v f) n = (if n = k then v else bit f n)"
  by (auto simp add: put_bit_def bit_simps dest: bit_imp_le_length)

subsection \<open>Parity\<close>

lemma and_1_eq_0_iff: "(x AND 1 = 0) = (\<not> bit x 0)" for x :: u8
  by (simp add: bit_0 and_one_eq even_iff_mod_2_eq_zero)

lemma parity_bits:
  "parity v = (((bit v 0 \<noteq> bit v 4) \<noteq> (bit v 2 \<noteq> bit v 6)) = ((bit v 1 \<noteq> bit v 5) \<noteq> (bit v 3 \<noteq> bit v 7)))"
  unfolding parity_def Let_def and_1_eq_0_iff
  by (simp add: bit_simps numeral_3_eq_3)

lemma upt8: "[0..<8] = [0, 1, 2, 3, 4, 5, 6, 7::nat]"
  by (simp add: upt_rec)

lemma parity_popcount: "parity v = even (popcount v)"
  by (simp add: parity_bits popcount_def upt8)

subsection \<open>The S, Z and P update\<close>

lemma update_szp_eq:
  "update_szp s r = s\<lparr>F := put_bit 2 (parity r) (put_bit 6 (r = 0) (put_bit 7 (r AND 0x80 \<noteq> 0) (F s)))\<rparr>"
  by (simp add: update_szp_def Let_def set_flag_eqs put_bit_def)

lemma and_0x80_iff: "(r AND 0x80 \<noteq> 0) = bit r 7" for r :: u8
  by (simp add: bit_iff_and_push_bit_not_eq_0)

lemma bit_F_update_szp:
  "bit (F (update_szp s r)) n =
     (if n = 7 then bit r 7 else if n = 6 then r = 0 else if n = 2 then even (popcount r)
      else bit (F s) n)"
  by (simp add: update_szp_eq bit_put_bit and_0x80_iff parity_popcount)

lemma update_szp_frame: "update_szp s r = s\<lparr>F := F (update_szp s r)\<rparr>"
  by (simp add: update_szp_eq)

subsection \<open>The subtraction flag update\<close>

lemma ucast_wi_16_8: "(ucast (word_of_int k :: u16) :: u8) = word_of_int k"
  by (simp add: ucast_down_wi is_down)

lemma sub_result: "(ucast (word_of_int (uint lhs - uint rhs - uint b) :: u16) :: u8) = lhs - rhs - b"
proof -
  have "(word_of_int (uint lhs - uint rhs - uint b) :: u8) = lhs - rhs - b"
    by simp
  then show ?thesis
    by (simp only: ucast_wi_16_8)
qed

lemma uint_u8_bound: "uint (x :: u8) < 256"
  using uint_bounded [of x] by simp

lemma sub_carry:
  "((word_of_int (uint (lhs::u8) - uint (rhs::u8) - uint (b::u8)) :: u16) > 0xFF)
     = (uint lhs < uint rhs + uint b)"
proof -
  define d where "d = uint lhs - uint rhs - uint b"
  have bl: "0 \<le> uint lhs" "uint lhs < 256" "0 \<le> uint rhs" "uint rhs < 256"
    "0 \<le> uint b" "uint b < 256"
    by (simp_all add: uint_u8_bound)
  have lo: "- 65536 \<le> d" and hi: "d \<le> 255"
    unfolding d_def using bl by linarith+
  have u: "uint (word_of_int d :: u16) = d mod 65536"
    by (simp add: uint_word_of_int)
  have less: "((0xFF :: u16) < word_of_int d) = (255 < d mod 65536)"
    by (simp only: word_less_def u) simp
  have "(255 < d mod 65536) = (d < 0)"
  proof (cases "d < 0")
    case True
    have "0 \<le> d + 65536"
      using lo by linarith
    moreover have "d + 65536 < 65536"
      using True by linarith
    ultimately have "(d + 65536) mod 65536 = d + 65536"
      by (rule mod_pos_pos_trivial)
    moreover have "(d + 65536) mod 65536 = d mod 65536"
      by simp
    ultimately have "d mod 65536 = d + 65536"
      by simp
    moreover have "255 < d + 65536"
      unfolding d_def using bl by linarith
    ultimately show ?thesis
      using True by simp
  next
    case False
    then have "0 \<le> d"
      by simp
    moreover have "d < 65536"
      using hi by linarith
    ultimately have "d mod 65536 = d"
      by (rule mod_pos_pos_trivial)
    then show ?thesis
      using False hi by simp
  qed
  moreover have "(d < 0) = (uint lhs < uint rhs + uint b)"
    unfolding d_def by linarith
  ultimately show ?thesis
    using less unfolding d_def by simp
qed

lemma update_flags_sub_eq:
  "update_flags_sub s lhs rhs b =
     s\<lparr>F := put_bit 4 (uint (lhs AND 0x0F) - uint (rhs AND 0x0F) - uint b < 0)
             (put_bit 0 (uint lhs < uint rhs + uint b)
               (F (update_szp s (lhs - rhs - b))))\<rparr>"
  unfolding update_flags_sub_def Let_def sub_result sub_carry
  by (simp add: set_flag_eqs put_bit_def update_szp_eq)

lemma bit_F_update_flags_sub:
  "bit (F (update_flags_sub s lhs rhs b)) n =
     (if n = 4 then uint (lhs AND 0x0F) - uint (rhs AND 0x0F) - uint b < 0
      else if n = 0 then uint lhs < uint rhs + uint b
      else if n = 7 then bit (lhs - rhs - b) 7
      else if n = 6 then lhs - rhs - b = 0
      else if n = 2 then even (popcount (lhs - rhs - b))
      else bit (F s) n)"
  by (simp add: update_flags_sub_eq bit_put_bit bit_F_update_szp)

lemma uint_sub_result:
  "uint (lhs - rhs - b) = (uint lhs - uint rhs - uint b) mod 256" for lhs rhs b :: u8
proof -
  have "uint (word_of_int (uint lhs - uint rhs - uint b) :: u8)
      = (uint lhs - uint rhs - uint b) mod 2 ^ LENGTH(8)"
    by (rule uint_word_of_int)
  moreover have "(word_of_int (uint lhs - uint rhs - uint b) :: u8) = lhs - rhs - b"
    by simp
  ultimately show ?thesis
    by simp
qed

lemmas step_defs = Step8080_def next8_def ret_def Let_def

lemma reg_read_0: "reg_read s 0 = B s"
  by (simp add: reg_read_def)

lemma SBB_B_scenario:
  assumes "\<not> halted s" "mem s (PC s) = 0x98" "A s = 0x3E" "B s = 0x3E" "F s = 0x03"
  shows "Step8080 s io w = Inr (4, s\<lparr>A := 0xFF, F := 0x97, PC := PC s + 1\<rparr>, w)"
proof -
  have p: "parity (- 1)"
    by code_simp
  have cy: "flag_cy (s\<lparr>PC := PC s + 1\<rparr>)"
    using assms by (simp add: flag_cy_def FLAG_CY_def)
  have "op_SBB (s\<lparr>PC := PC s + 1\<rparr>) 0 = (4, s\<lparr>A := 0xFF, F := 0x97, PC := PC s + 1\<rparr>)"
    using assms p cy
    by (simp add: op_SBB_def Let_def reg_read_0 update_flags_sub_eq update_szp_eq put_bit_def
        set_bit_eq_or unset_bit_eq_and_not)
  then show ?thesis
    using assms by (simp add: step_defs)
qed

section \<open>The sub-class flag update\<close>

text \<open>
  Claim C2, as stated: the auxiliary-carry comparison can never be true, so the sub-class
  flag update leaves AC cleared. It fails: from the fresh state, where AC is clear,
  the update for \<open>0 - 1\<close> sets AC.
\<close>

theorem update_flags_sub_ac_counterexample:
  "\<not> flag_ac init_state \<and> flag_ac (update_flags_sub init_state 0x00 0x01 0x00)"
  by (simp add: flag_bits bit_F_update_flags_sub) (simp add: init_state_def FLAG_FIXED_def)

text \<open>
  Claim C2, amended: the operands of the auxiliary-carry test are promoted to \<^verbatim>\<open>int\<close>, so
  the comparison is true exactly when the low nibble of \<open>lhs\<close> is less than the low nibble
  of \<open>rhs\<close> plus the borrow; for all operands the sub-class flag update sets AC in exactly
  that case and clears it otherwise.
\<close>

theorem update_flags_sub_ac_promoted:
  "flag_ac (update_flags_sub s lhs rhs borrow_in)
     = (unat (lhs AND 0x0F) < unat (rhs AND 0x0F) + unat borrow_in)"
proof -
  have "(uint (lhs AND 0x0F) - uint (rhs AND 0x0F) - uint borrow_in < 0)
      = (uint (lhs AND 0x0F) < uint (rhs AND 0x0F) + uint borrow_in)"
    by linarith
  also have "\<dots> = (int (unat (lhs AND 0x0F)) < int (unat (rhs AND 0x0F) + unat borrow_in))"
    by simp
  also have "\<dots> = (unat (lhs AND 0x0F) < unat (rhs AND 0x0F) + unat borrow_in)"
    by (simp only: of_nat_less_iff)
  finally show ?thesis
    by (simp add: flag_bits bit_F_update_flags_sub)
qed

section \<open>Decimal adjust\<close>

lemma daa_correction_code:
  "(if flag_cy t \<or> A t > 0x99
    then (if flag_ac t \<or> A t AND 0x0F > 9 then 0x06 else 0 :: u8) OR 0x60
    else (if flag_ac t \<or> A t AND 0x0F > 9 then 0x06 else 0))
   = daa_correction_spec (A t) (flag_cy t) (flag_ac t)"
  by (simp add: daa_correction_spec_def)

lemma op_DAA_eq:
  "op_DAA t =
     (let corr = daa_correction_spec (A t) (flag_cy t) (flag_ac t) in
      (4, t\<lparr>A := A t + corr,
             F := put_bit 0 (flag_cy t \<or> A t > 0x99)
                    (put_bit 2 (parity (A t + corr))
                      (put_bit 6 (A t + corr = 0)
                        (put_bit 7 ((A t + corr) AND 0x80 \<noteq> 0)
                          (put_bit 4 (uint (A t AND 0x0F) + uint (corr AND 0x0F) > 0x0F) (F t)))))\<rparr>))"
  unfolding op_DAA_def Let_def daa_correction_code
  by (simp add: set_flag_eqs update_szp_eq put_bit_def)

lemma DAA_step:
  assumes "\<not> halted s" "mem s (PC s) = 0x27"
  shows "Step8080 s io w = Inr (4, snd (op_DAA (s\<lparr>PC := PC s + 1\<rparr>)), w)"
  using assms by (simp add: step_defs op_DAA_eq)

lemma DAA_scenario:
  assumes "\<not> halted s" "mem s (PC s) = 0x27" "A s = 0x9B" "F s = 0x02"
  shows "Step8080 s io w = Inr (4, s\<lparr>A := 0x01, F := 0x13, PC := PC s + 1\<rparr>, w)"
proof -
  have p: "\<not> parity 1"
    by code_simp
  have n: "(257 :: u8) = 1"
    by simp
  have "snd (op_DAA (s\<lparr>PC := PC s + 1\<rparr>)) = s\<lparr>A := 0x01, F := 0x13, PC := PC s + 1\<rparr>"
    using assms p
    by (simp add: n op_DAA_eq Let_def daa_correction_spec_def flag_cy_def flag_ac_def FLAG_CY_def
        FLAG_AC_def put_bit_def set_bit_eq_or unset_bit_eq_and_not)
  then show ?thesis
    using assms by (simp add: DAA_step)
qed

text \<open>
  Claim C5. Executing \<open>DAA\<close> (0x27) adds to \<open>A\<close> the correction of the four-step rule
  (0x06 iff \<open>AC = 1\<close> or the low nibble exceeds 9; 0x60 iff \<open>CY = 1\<close> or \<open>A > 0x99\<close>), sets
  CY in the second case and otherwise keeps it, sets AC iff the low nibble plus the low
  nibble of the correction exceeds 0x0F, derives S, Z and P from the new \<open>A\<close>, advances
  \<open>PC\<close> by one, changes nothing else and takes 4 cycles. From \<open>A = 0x9B\<close>, \<open>F = 0x02\<close> it
  yields \<open>A = 0x01\<close>, \<open>F = 0x13\<close>.
\<close>

theorem DAA_rule:
  "(\<not> halted s \<and> mem s (PC s) = 0x27 \<longrightarrow>
      (\<exists>s'. Step8080 s io w = Inr (4, s', w) \<and>
         (let corr = daa_correction_spec (A s) (flag_cy s) (flag_ac s) in
            A s' = A s + corr \<and>
            flag_cy s' = (if flag_cy s \<or> A s > 0x99 then True else flag_cy s) \<and>
            flag_ac s' = (uint (A s AND 0x0F) + uint (corr AND 0x0F) > 0x0F) \<and>
            flag_s s' = bit (A s') 7 \<and>
            flag_z s' = (A s' = 0) \<and>
            flag_p s' = even (popcount (A s')) \<and>
            s' = s\<lparr>A := A s', F := F s', PC := PC s + 1\<rparr>)))
   \<and> (\<not> halted s \<and> mem s (PC s) = 0x27 \<and> A s = 0x9B \<and> F s = 0x02 \<longrightarrow>
        Step8080 s io w = Inr (4, s\<lparr>A := 0x01, F := 0x13, PC := PC s + 1\<rparr>, w))"
proof (intro conjI impI)
  assume h: "\<not> halted s \<and> mem s (PC s) = 0x27"
  let ?s' = "snd (op_DAA (s\<lparr>PC := PC s + 1\<rparr>))"
  have "Step8080 s io w = Inr (4, ?s', w)"
    using h by (simp add: DAA_step)
  moreover have "let corr = daa_correction_spec (A s) (flag_cy s) (flag_ac s) in
            A ?s' = A s + corr \<and>
            flag_cy ?s' = (if flag_cy s \<or> A s > 0x99 then True else flag_cy s) \<and>
            flag_ac ?s' = (uint (A s AND 0x0F) + uint (corr AND 0x0F) > 0x0F) \<and>
            flag_s ?s' = bit (A ?s') 7 \<and>
            flag_z ?s' = (A ?s' = 0) \<and>
            flag_p ?s' = even (popcount (A ?s')) \<and>
            ?s' = s\<lparr>A := A ?s', F := F ?s', PC := PC s + 1\<rparr>"
    by (simp add: op_DAA_eq Let_def flag_bits bit_put_bit and_0x80_iff parity_popcount)
  ultimately show "\<exists>s'. Step8080 s io w = Inr (4, s', w) \<and>
         (let corr = daa_correction_spec (A s) (flag_cy s) (flag_ac s) in
            A s' = A s + corr \<and>
            flag_cy s' = (if flag_cy s \<or> A s > 0x99 then True else flag_cy s) \<and>
            flag_ac s' = (uint (A s AND 0x0F) + uint (corr AND 0x0F) > 0x0F) \<and>
            flag_s s' = bit (A s') 7 \<and>
            flag_z s' = (A s' = 0) \<and>
            flag_p s' = even (popcount (A s')) \<and>
            s' = s\<lparr>A := A s', F := F s', PC := PC s + 1\<rparr>)"
    by blast
next
  assume "\<not> halted s \<and> mem s (PC s) = 0x27 \<and> A s = 0x9B \<and> F s = 0x02"
  then show "Step8080 s io w = Inr (4, s\<lparr>A := 0x01, F := 0x13, PC := PC s + 1\<rparr>, w)"
    by (simp add: DAA_scenario)
qed

theorem DAA_rule_witness:
  "Step8080 (init_state\<lparr>A := 0x9B, mem := (\<lambda>_. 0)(0 := 0x27)\<rparr>) no_io ()
     = Inr (4, init_state\<lparr>A := 0x01, F := 0x13, mem := (\<lambda>_. 0)(0 := 0x27), PC := 1\<rparr>, ())"
  using DAA_rule [of "init_state\<lparr>A := 0x9B, mem := (\<lambda>_. 0)(0 := 0x27)\<rparr>" no_io "()"]
  by (simp add: init_state_def FLAG_FIXED_def)

section \<open>Halt and the I/O instructions\<close>

text \<open>
  Claim C7. In a halted state one call of the step function returns 4 cycles and the very
  same state and host state, whatever the memory holds and whatever the handlers of the
  I/O bus are: nothing is fetched or decoded, and no handler runs.
\<close>

theorem halted_step_frame:
  "halted s \<longrightarrow> Step8080 s io w = Inr (4, s, w)"
  by (simp add: Step8080_def)

theorem halted_step_frame_witness:
  "Step8080 (init_state\<lparr>halted := True, mem := (\<lambda>_. 0)(0 := 0xDB)\<rparr>)
      \<lparr>in_handler = Some (\<lambda>p n. (0, Suc n)), out_handler = Some (\<lambda>p v n. Suc n)\<rparr> (0 :: nat)
     = Inr (4, init_state\<lparr>halted := True, mem := (\<lambda>_. 0)(0 := 0xDB)\<rparr>, 0)"
  using halted_step_frame [of "init_state\<lparr>halted := True, mem := (\<lambda>_. 0)(0 := 0xDB)\<rparr>"
      "\<lparr>in_handler = Some (\<lambda>p n. (0, Suc n)), out_handler = Some (\<lambda>p v n. Suc n)\<rparr>" "0 :: nat"]
  by simp

text \<open>
  Claim C8. With no input handler, \<open>IN p\<close> (0xDB) sets \<open>A\<close> to 0xFF, advances \<open>PC\<close> by 2,
  takes 10 cycles and changes nothing else; with no output handler, \<open>OUT p\<close> (0xD3)
  advances \<open>PC\<close> by 2, takes 10 cycles and changes nothing else.
\<close>

theorem IN_OUT_absent_handler:
  "(\<not> halted s \<and> mem s (PC s) = 0xDB \<and> in_handler io = None \<longrightarrow>
      Step8080 s io w = Inr (10, s\<lparr>A := 0xFF, PC := PC s + 2\<rparr>, w))
   \<and> (\<not> halted s \<and> mem s (PC s) = 0xD3 \<and> out_handler io = None \<longrightarrow>
      Step8080 s io w = Inr (10, s\<lparr>PC := PC s + 2\<rparr>, w))"
  by (simp add: step_defs op_IN_def op_OUT_def)

theorem IN_OUT_absent_handler_witness:
  "Step8080 (init_state\<lparr>mem := (\<lambda>_. 0)(0 := 0xDB, 1 := 0x07)\<rparr>)
      \<lparr>in_handler = None, out_handler = Some (\<lambda>p v n. Suc n)\<rparr> (0 :: nat)
     = Inr (10, init_state\<lparr>A := 0xFF, mem := (\<lambda>_. 0)(0 := 0xDB, 1 := 0x07), PC := 2\<rparr>, 0)
   \<and> Step8080 (init_state\<lparr>A := 0x41, mem := (\<lambda>_. 0)(0 := 0xD3, 1 := 0x07)\<rparr>)
      \<lparr>in_handler = Some (\<lambda>p n. (0, Suc n)), out_handler = None\<rparr> (0 :: nat)
     = Inr (10, init_state\<lparr>A := 0x41, mem := (\<lambda>_. 0)(0 := 0xD3, 1 := 0x07), PC := 2\<rparr>, 0)"
  using IN_OUT_absent_handler [of "init_state\<lparr>mem := (\<lambda>_. 0)(0 := 0xDB, 1 := 0x07)\<rparr>"
      "\<lparr>in_handler = None, out_handler = Some (\<lambda>p v n. Suc n)\<rparr>" "0 :: nat"]
    IN_OUT_absent_handler [of "init_state\<lparr>A := 0x41, mem := (\<lambda>_. 0)(0 := 0xD3, 1 := 0x07)\<rparr>"
      "\<lparr>in_handler = Some (\<lambda>p n. (0, Suc n)), out_handler = None\<rparr>" "0 :: nat"]
  by (simp add: init_state_def)

section \<open>The stack, 16-bit memory words and the PSW\<close>

lemmas stack_defs = ret_stack_def push16_def pop16_def read16_def write16_def mem_get_def
  mem_set_def

lemma steps_2:
  "steps 2 s io w =
     (case Step8080 s io w of
        Inl e \<Rightarrow> Inl e
      | Inr (c, s1, w1) \<Rightarrow>
          (case Step8080 s1 io w1 of Inl e \<Rightarrow> Inl e | Inr (c, s2, w2) \<Rightarrow> Inr (s2, w2)))"
  by (simp add: numeral_2_eq_2 split: sum.splits)

lemma steps_3:
  "steps 3 s io w =
     (case Step8080 s io w of
        Inl e \<Rightarrow> Inl e
      | Inr (c, s1, w1) \<Rightarrow>
          (case Step8080 s1 io w1 of
             Inl e \<Rightarrow> Inl e
           | Inr (c, s2, w2) \<Rightarrow>
               (case Step8080 s2 io w2 of Inl e \<Rightarrow> Inl e | Inr (c, s3, w3) \<Rightarrow> Inr (s3, w3))))"
  by (simp add: numeral_3_eq_3 split: sum.splits)

lemma fresh_with_4:
  "fresh_with [a, b, c, d] = init_state\<lparr>mem := (\<lambda>_. 0)(0 := a, 1 := b, 2 := c, 3 := d)\<rparr>"
  by (simp add: fresh_with_def LoadBinary_def init_state_def)

lemma fresh_with_5:
  "fresh_with [a, b, c, d, e] =
     init_state\<lparr>mem := (\<lambda>_. 0)(0 := a, 1 := b, 2 := c, 3 := d, 4 := e)\<rparr>"
  by (simp add: fresh_with_def LoadBinary_def init_state_def)

lemma and_0xFF: "v AND 0xFF = take_bit 8 v" for v :: u16
  by (simp add: take_bit_eq_mask mask_eq_exp_minus_1)

lemma bit_2_u8: "bit (2 :: u8) n = (n = 1)"
  using bit_push_bit_iff [of 1 "1 :: u8" n] by (auto simp add: bit_simps)

lemma bit_F_setPSW:
  "n < 8 \<Longrightarrow> bit (F (setPSW s v)) n = (n = 1 \<or> bit v n)"
  by (auto simp add: setPSW_def FLAG_FIXED_def and_0xFF bit_2_u8 bit_simps)

lemma read16_top: "read16 s 0xFFFF = Inl (OutOfBounds 0x10000)"
  by (simp add: read16_def mem_get_def)

lemma write16_top: "write16 s 0xFFFF v = Inl (OutOfBounds 0x10000)"
  by (simp add: write16_def mem_set_def)

lemma neg_u16: "(- 1 :: u16) = 0xFFFF" "(- 2 :: u16) = 0xFFFE"
  by simp_all

text \<open>
  Claim C3: after every instruction bit 1 of \<open>F\<close> is set and bits 3 and 5 are clear, and
  \<open>POP PSW\<close> re-asserts that for every word popped. The code does not: \<open>setPSW\<close> sets bit 1
  and copies bits 3 and 5 of the popped low byte into \<open>F\<close>. Run from the fresh state with
  the image \<open>LXI B,0x0028; PUSH B; POP PSW\<close>, the third instruction leaves \<open>F = 0x2A\<close>.
\<close>

theorem POP_PSW_copies_bits_3_5:
  "(bit (F (setPSW s v)) 1 \<and> bit (F (setPSW s v)) 3 = bit v 3 \<and> bit (F (setPSW s v)) 5 = bit v 5)
   \<and> steps 3 (fresh_with [0x01, 0x28, 0x00, 0xC5, 0xF1]) no_io ()
       = Inr (init_state\<lparr>C := 0x28, F := 0x2A, PC := 5,
                mem := (\<lambda>_. 0)(0 := 0x01, 1 := 0x28, 2 := 0x00, 3 := 0xC5, 4 := 0xF1,
                         0xFFFE := 0x28, 0xFFFF := 0x00)\<rparr>, ())"
proof -
  let ?m = "((\<lambda>_. 0)(0 := 0x01, 1 := 0x28, 2 := 0x00, 3 := 0xC5, 4 := 0xF1)) :: u16 \<Rightarrow> u8"
  let ?s1 = "init_state\<lparr>C := 0x28, PC := 3, mem := ?m\<rparr>"
  let ?s2 = "init_state\<lparr>C := 0x28, PC := 4, SP := 0xFFFE, mem := ?m(0xFFFE := 0x28, 0xFFFF := 0x00)\<rparr>"
  let ?s3 = "init_state\<lparr>C := 0x28, F := 0x2A, PC := 5, mem := ?m(0xFFFE := 0x28, 0xFFFF := 0x00)\<rparr>"
  have 1: "Step8080 (fresh_with [0x01, 0x28, 0x00, 0xC5, 0xF1]) no_io () = Inr (10, ?s1, ())"
    by (simp add: fresh_with_5 init_state_def step_defs op_LXI_def next16_def rp_write_def
        setBC_def)
  have 2: "Step8080 ?s1 no_io () = Inr (11, ?s2, ())"
    by (simp add: init_state_def step_defs stack_defs op_PUSH_def rp_read_psw_def rp_read_def
        BC_def pair16_def neg_u16)
  have 3: "Step8080 ?s2 no_io () = Inr (10, ?s3, ())"
    by (simp add: init_state_def step_defs stack_defs op_POP_def rp_write_psw_def setPSW_def
        FLAG_FIXED_def)
  show ?thesis
    by (simp add: bit_F_setPSW steps_3 1 2 3)
qed

text \<open>
  Claim C4: every memory and stack access wraps modulo \<open>2^16\<close> and stays inside the
  array. The 16-bit helpers do not wrap: the index of the high byte is \<^verbatim>\<open>addr + 1\<close>
  computed as an \<^verbatim>\<open>int\<close>, which for \<open>addr = 0xFFFF\<close> is \<open>0x10000\<close>, one past the array.
  Run from the fresh state with the image \<open>LXI SP,0xFFFF; RET\<close>, the second instruction
  reads index \<open>0x10000\<close>.
\<close>

theorem read16_write16_index_past_end:
  "read16 s 0xFFFF = Inl (OutOfBounds 0x10000)
   \<and> write16 s 0xFFFF v = Inl (OutOfBounds 0x10000)
   \<and> steps 2 (fresh_with [0x31, 0xFF, 0xFF, 0xC9]) no_io () = Inl (OutOfBounds 0x10000)"
proof -
  let ?m = "((\<lambda>_. 0)(0 := 0x31, 1 := 0xFF, 2 := 0xFF, 3 := 0xC9)) :: u16 \<Rightarrow> u8"
  let ?s1 = "init_state\<lparr>PC := 3, SP := 0xFFFF, mem := ?m\<rparr>"
  have 1: "Step8080 (fresh_with [0x31, 0xFF, 0xFF, 0xC9]) no_io () = Inr (10, ?s1, ())"
    by (simp add: fresh_with_4 init_state_def step_defs op_LXI_def next16_def rp_write_def)
  have 2: "Step8080 ?s1 no_io () = Inl (OutOfBounds 0x10000)"
    by (simp add: init_state_def step_defs stack_defs op_RET_def)
  show ?thesis
    by (simp add: read16_top write16_top steps_2 1 2)
qed

text \<open>
  Claim C6: \<open>PUSH PSW; POP PSW\<close> restores \<open>A\<close>, \<open>F\<close> and \<open>SP\<close> in every state that satisfies
  the fixed-flag invariant. With \<open>SP = 0x0001\<close> the push writes its low byte at \<open>0xFFFF\<close>
  and its high byte at index \<open>0x10000\<close>, one past the array. Run from the fresh state
  with the image \<open>LXI SP,0x0001; PUSH PSW; POP PSW\<close>, the second instruction does so.
\<close>

theorem PUSH_PSW_index_past_end:
  "steps 2 (fresh_with [0x31, 0x01, 0x00, 0xF5, 0xF1]) no_io () = Inl (OutOfBounds 0x10000)"
proof -
  let ?m = "((\<lambda>_. 0)(0 := 0x31, 1 := 0x01, 2 := 0x00, 3 := 0xF5, 4 := 0xF1)) :: u16 \<Rightarrow> u8"
  let ?s1 = "init_state\<lparr>PC := 3, SP := 0x0001, mem := ?m\<rparr>"
  have 1: "Step8080 (fresh_with [0x31, 0x01, 0x00, 0xF5, 0xF1]) no_io () = Inr (10, ?s1, ())"
    by (simp add: fresh_with_5 init_state_def step_defs op_LXI_def next16_def rp_write_def)
  have 2: "Step8080 ?s1 no_io () = Inl (OutOfBounds 0x10000)"
    by (simp add: init_state_def step_defs stack_defs op_PUSH_def neg_u16)
  show ?thesis
    by (simp add: steps_2 1 2)
qed

section \<open>The loader\<close>

lemma unat_of_nat_u16: "i < 65536 \<Longrightarrow> unat (of_nat i :: u16) = i"
  by (simp add: unat_of_nat)

lemma fread_at:
  "i + length bs \<le> 65536 \<Longrightarrow>
     fread m i bs a =
       (if i \<le> unat a \<and> unat a < i + length bs then bs ! (unat a - i) else m a)"
proof (induction bs arbitrary: m i)
  case Nil
  then show ?case by auto
next
  case (Cons b bs)
  then have i: "i < 65536" and len: "Suc i + length bs \<le> 65536"
    by simp_all
  have eq: "(a = of_nat i) = (unat a = i)"
    using i by (simp add: word_unat_eq_iff [of a] unat_of_nat_u16)
  show ?case
  proof (cases "unat a = i")
    case True
    then show ?thesis
      using Cons.IH [OF len] eq by simp
  next
    case False
    then show ?thesis
      using Cons.IH [OF len] eq by (auto simp add: nth_Cons' Suc_le_eq)
  qed
qed

text \<open>
  Claim C9. The loader fails exactly when the file cannot be opened or its length exceeds
  \<open>0x10000 - offset\<close>; when it fails the machine state is unchanged; when it succeeds,
  the bytes at the addresses \<open>[offset, offset + length)\<close> are the bytes of the file, every
  other byte of memory is unchanged, and no other field of the state is modified.
\<close>

theorem LoadBinary_contract:
  "(snd (LoadBinary state fs path offset) \<noteq> None)
     = (fs path = None \<or> (\<exists>bytes. fs path = Some bytes \<and> int (length bytes) > 0x10000 - uint offset))
   \<and> (snd (LoadBinary state fs path offset) \<noteq> None \<longrightarrow>
        fst (LoadBinary state fs path offset) = state)
   \<and> (\<forall>bytes. fs path = Some bytes \<and> int (length bytes) \<le> 0x10000 - uint offset \<longrightarrow>
        LoadBinary state fs path offset =
          (state\<lparr>mem := \<lambda>a. if unat offset \<le> unat a \<and> unat a < unat offset + length bytes
                            then bytes ! (unat a - unat offset) else mem state a\<rparr>, None))"
proof (intro conjI allI impI)
  show "(snd (LoadBinary state fs path offset) \<noteq> None)
     = (fs path = None \<or> (\<exists>bytes. fs path = Some bytes \<and> int (length bytes) > 0x10000 - uint offset))"
    by (auto simp add: LoadBinary_def Let_def split: option.splits)
next
  assume "snd (LoadBinary state fs path offset) \<noteq> None"
  then show "fst (LoadBinary state fs path offset) = state"
    by (auto simp add: LoadBinary_def Let_def split: option.splits if_splits)
next
  fix bytes
  assume h: "fs path = Some bytes \<and> int (length bytes) \<le> 0x10000 - uint offset"
  then have "int (unat offset) + int (length bytes) \<le> 65536"
    by simp
  then have len: "unat offset + length bytes \<le> 65536"
    by linarith
  have "fread (mem state) (unat offset) bytes =
      (\<lambda>a. if unat offset \<le> unat a \<and> unat a < unat offset + length bytes
            then bytes ! (unat a - unat offset) else mem state a)"
    by (rule ext) (rule fread_at [OF len])
  then show "LoadBinary state fs path offset =
          (state\<lparr>mem := \<lambda>a. if unat offset \<le> unat a \<and> unat a < unat offset + length bytes
                            then bytes ! (unat a - unat offset) else mem state a\<rparr>, None)"
    using h by (simp add: LoadBinary_def Let_def)
qed

theorem LoadBinary_contract_witness:
  "snd (LoadBinary init_state (\<lambda>p. Some [0xAA, 0xBB]) ''a.com'' 0xFFFE) = None
   \<and> mem (fst (LoadBinary init_state (\<lambda>p. Some [0xAA, 0xBB]) ''a.com'' 0xFFFE)) 0xFFFD = 0
   \<and> mem (fst (LoadBinary init_state (\<lambda>p. Some [0xAA, 0xBB]) ''a.com'' 0xFFFE)) 0xFFFE = 0xAA
   \<and> mem (fst (LoadBinary init_state (\<lambda>p. Some [0xAA, 0xBB]) ''a.com'' 0xFFFE)) 0xFFFF = 0xBB
   \<and> LoadBinary init_state (\<lambda>p. Some [0xAA, 0xBB, 0xCC]) ''a.com'' 0xFFFE
       = (init_state, Some (RuntimeError ''Binary too large for memory at given offset''))
   \<and> LoadBinary init_state (\<lambda>p. None) ''a.com'' 0x0100
       = (init_state, Some (RuntimeError ''Cannot open: a.com''))"
proof -
  have 1: "LoadBinary init_state (\<lambda>p. Some [0xAA, 0xBB]) ''a.com'' 0xFFFE =
      (init_state\<lparr>mem := \<lambda>a. if unat (0xFFFE :: u16) \<le> unat a \<and> unat a < unat (0xFFFE :: u16) + length [0xAA, 0xBB :: u8]
                            then [0xAA, 0xBB] ! (unat a - unat (0xFFFE :: u16)) else mem init_state a\<rparr>, None)"
    using LoadBinary_contract [of init_state "\<lambda>p. Some [0xAA, 0xBB]" "''a.com''" "0xFFFE"]
    by simp
  have 2: "snd (LoadBinary init_state (\<lambda>p. Some [0xAA, 0xBB, 0xCC]) ''a.com'' 0xFFFE) \<noteq> None"
    using LoadBinary_contract [of init_state "\<lambda>p. Some [0xAA, 0xBB, 0xCC]" "''a.com''" "0xFFFE"]
    by simp
  have 3: "snd (LoadBinary init_state (\<lambda>p. None) ''a.com'' 0x0100) \<noteq> None"
    using LoadBinary_contract [of init_state "\<lambda>p. None" "''a.com''" "0x0100"]
    by simp
  have 4: "mem init_state = (\<lambda>_. 0)"
    by (simp add: init_state_def)
  show ?thesis
    using 2 3 by (simp add: 1 4) (simp add: LoadBinary_def)
qed

section \<open>BDOS function 9\<close>

lemma bdos_print_string_Some_dollar:
  assumes "bdos_print_string m addr out = Some r"
  shows "\<exists>a. m a = 0x24"
proof (rule bdos_print_string.raw_induct [where P = "\<lambda>m _ _ _. \<exists>a. m a = 0x24", OF _ assms])
  fix print :: "(u16 \<Rightarrow> u8) \<Rightarrow> u16 \<Rightarrow> u8 list \<Rightarrow> u8 list option"
  fix m addr out r
  assume IH: "\<And>m addr out r. print m addr out = Some r \<Longrightarrow> \<exists>a. m a = 0x24"
  assume body: "(if m addr \<noteq> 0x24 then print m (addr + 1) (out @ [m addr]) else Some out) = Some r"
  show "\<exists>a. m a = 0x24"
  proof (cases "m addr = 0x24")
    case True
    then show ?thesis by blast
  next
    case False
    with body have "print m (addr + 1) (out @ [m addr]) = Some r"
      by simp
    then show ?thesis by (rule IH)
  qed
qed

lemma bdos_print_string_reaches:
  "m (addr + of_nat n) = 0x24 \<Longrightarrow>
     \<exists>cs. bdos_print_string m addr out = Some (out @ cs) \<and> length cs \<le> n"
proof (induction n arbitrary: addr out)
  case 0
  then have "bdos_print_string m addr out = Some (out @ [])"
    by (simp add: bdos_print_string.simps [of m addr out])
  then show ?case
    by (metis le_refl list.size(3))
next
  case (Suc n)
  show ?case
  proof (cases "m addr = 0x24")
    case True
    then have "bdos_print_string m addr out = Some (out @ [])"
      by (simp add: bdos_print_string.simps [of m addr out])
    then show ?thesis
      by (metis le0 list.size(3))
  next
    case False
    have "m (addr + 1 + of_nat n) = 0x24"
      using Suc.prems by (simp add: add.assoc)
    then obtain cs where cs: "bdos_print_string m (addr + 1) (out @ [m addr]) = Some ((out @ [m addr]) @ cs)"
      and len: "length cs \<le> n"
      using Suc.IH [of "addr + 1" "out @ [m addr]"] by blast
    have "bdos_print_string m addr out = bdos_print_string m (addr + 1) (out @ [m addr])"
      using False by (simp add: bdos_print_string.simps [of m addr out])
    with cs have "bdos_print_string m addr out = Some (out @ (m addr # cs))"
      by simp
    moreover have "length (m addr # cs) \<le> Suc n"
      using len by simp
    ultimately show ?thesis
      by blast
  qed
qed

lemma bdos_print_string_terminates:
  assumes "m a = 0x24"
  shows "\<exists>cs. bdos_print_string m addr out = Some (out @ cs) \<and> length cs < 65536"
proof -
  have "addr + of_nat (unat (a - addr)) = a"
    by simp
  with assms have "m (addr + of_nat (unat (a - addr))) = 0x24"
    by simp
  then obtain cs where "bdos_print_string m addr out = Some (out @ cs)"
    and "length cs \<le> unat (a - addr)"
    using bdos_print_string_reaches by blast
  moreover have "unat (a - addr) < 65536"
    using unsigned_less [of "a - addr"] by simp
  ultimately show ?thesis
    by (metis le_less_trans)
qed

lemma bdos_print_string_diverges:
  assumes "\<forall>a. m a \<noteq> 0x24"
  shows "bdos_print_string m addr out = None"
proof (cases "bdos_print_string m addr out")
  case None
  then show ?thesis .
next
  case (Some r)
  then have "\<exists>a. m a = 0x24"
    by (rule bdos_print_string_Some_dollar)
  with assms show ?thesis by blast
qed

lemma bdos_print_string_None_iff:
  "(bdos_print_string m addr out = None) = (\<forall>a. m a \<noteq> 0x24)"
proof
  assume n: "bdos_print_string m addr out = None"
  show "\<forall>a. m a \<noteq> 0x24"
  proof (rule ccontr)
    assume "\<not> (\<forall>a. m a \<noteq> 0x24)"
    then obtain a where "m a = 0x24" by blast
    then obtain cs where "bdos_print_string m addr out = Some (out @ cs)"
      using bdos_print_string_terminates by blast
    with n show False by simp
  qed
next
  assume "\<forall>a. m a \<noteq> 0x24"
  then show "bdos_print_string m addr out = None"
    by (rule bdos_print_string_diverges)
qed

lemma cpm_bdos_9_None_iff:
  assumes "PC s = 5" "C s = 9"
  shows "(cpm_bdos s out = None) = (\<forall>a. mem s a \<noteq> 0x24)"
proof -
  have "(cpm_bdos s out = None) = (bdos_print_string (mem s) (DE s) out = None)"
    using assms by (simp add: cpm_bdos_def split: option.splits sum.splits)
  then show ?thesis
    by (simp add: bdos_print_string_None_iff)
qed

text \<open>
  Claim C10. BDOS function 9 (the hook at \<open>PC = 0x0005\<close> with \<open>C = 9\<close>) returns for every
  start address \<open>DE\<close> iff some byte of memory is \<open>'$'\<close> (0x24). If there is one, the loop
  returns after printing fewer than 65,536 characters, from any start address; if there is
  none, the loop and the hook never return.
\<close>

theorem bdos_function_9_termination:
  "((\<forall>d e. cpm_bdos (s\<lparr>PC := 5, C := 9, D := d, E := e\<rparr>) out \<noteq> None) = (\<exists>a. mem s a = 0x24))
   \<and> (PC s = 5 \<and> C s = 9 \<longrightarrow> (cpm_bdos s out \<noteq> None) = (\<exists>a. mem s a = 0x24))
   \<and> ((\<exists>a. mem s a = 0x24) \<longrightarrow>
        (\<exists>cs. bdos_print_string (mem s) addr out = Some (out @ cs) \<and> length cs < 65536))
   \<and> ((\<forall>a. mem s a \<noteq> 0x24) \<longrightarrow> bdos_print_string (mem s) addr out = None)"
proof (intro conjI impI)
  show "(\<forall>d e. cpm_bdos (s\<lparr>PC := 5, C := 9, D := d, E := e\<rparr>) out \<noteq> None) = (\<exists>a. mem s a = 0x24)"
    by (simp add: cpm_bdos_9_None_iff)
next
  assume "PC s = 5 \<and> C s = 9"
  then show "(cpm_bdos s out \<noteq> None) = (\<exists>a. mem s a = 0x24)"
    by (simp add: cpm_bdos_9_None_iff)
next
  assume "\<exists>a. mem s a = 0x24"
  then show "\<exists>cs. bdos_print_string (mem s) addr out = Some (out @ cs) \<and> length cs < 65536"
    using bdos_print_string_terminates by blast
next
  assume "\<forall>a. mem s a \<noteq> 0x24"
  then show "bdos_print_string (mem s) addr out = None"
    by (rule bdos_print_string_diverges)
qed

theorem bdos_function_9_termination_witness:
  "cpm_bdos (init_state\<lparr>PC := 5, C := 9, D := 0x01, E := 0x00,
        mem := (\<lambda>_. 0)(0x0100 := 0x48, 0x0101 := 0x49, 0x0102 := 0x24)\<rparr>) [] \<noteq> None
   \<and> cpm_bdos (init_state\<lparr>PC := 5, C := 9, D := 0x01, E := 0x00\<rparr>) [] = None"
proof -
  let ?s = "init_state\<lparr>PC := 5, C := 9, D := 0x01, E := 0x00,
        mem := (\<lambda>_. 0)(0x0100 := 0x48, 0x0101 := 0x49, 0x0102 := 0x24)\<rparr>"
  let ?z = "init_state\<lparr>PC := 5, C := 9, D := 0x01, E := 0x00\<rparr>"
  have "mem ?s 0x0102 = 0x24"
    by simp
  then have "\<exists>a. mem ?s a = 0x24"
    by blast
  then have 1: "cpm_bdos ?s [] \<noteq> None"
    using bdos_function_9_termination [of ?s "[]"] by simp
  have "\<forall>a. mem ?z a \<noteq> 0x24"
    by (simp add: init_state_def)
  then have 2: "cpm_bdos ?z [] = None"
    using bdos_function_9_termination [of ?z "[]"] by simp
  show ?thesis
    using 1 2 by simp
qed

section \<open>Where the 16-bit helpers stay inside the array\<close>

lemma uint_succ_u16:
  assumes "addr \<noteq> (0xFFFF :: u16)"
  shows "uint addr + 1 < 0x10000"
proof -
  have "uint addr < 65536"
    using uint_bounded [of addr] by simp
  moreover have "uint addr \<noteq> 65535"
  proof
    assume "uint addr = 65535"
    then have "uint addr = uint (0xFFFF :: u16)"
      by simp
    then have "addr = 0xFFFF"
      by (simp only: word_uint_eq_iff)
    with assms show False by simp
  qed
  ultimately show ?thesis
    by simp
qed

lemma read16_inside:
  assumes "addr \<noteq> 0xFFFF"
  shows "read16 s addr = Inr (pair16 (mem s (addr + 1)) (mem s addr))"
  using uint_succ_u16 [OF assms]
  by (simp add: read16_def mem_get_def pair16_def or.commute)

lemma write16_inside:
  assumes "addr \<noteq> 0xFFFF"
  shows "write16 s addr v =
     Inr (s\<lparr>mem := (mem s)(addr := ucast (v AND 0xFF), addr + 1 := ucast (drop_bit 8 v))\<rparr>)"
  using uint_succ_u16 [OF assms]
  by (simp add: write16_def mem_set_def)

lemma pair16_low: "(ucast (pair16 hi lo AND 0xFF) :: u8) = lo"
  by (rule bit_word_eqI) (auto simp add: pair16_def and_0xFF bit_simps)

lemma pair16_high: "(ucast (drop_bit 8 (pair16 hi lo)) :: u8) = hi"
  by (rule bit_word_eqI) (auto simp add: pair16_def bit_simps dest: bit_imp_le_length)

lemma or_fixed_absorb:
  assumes "f AND 0x02 = (0x02 :: u8)"
  shows "f OR 0x02 = f"
proof -
  have "f OR 0x02 = f OR (f AND 0x02)"
    using assms by simp
  then show ?thesis
    by simp
qed

text \<open>
  Away from \<open>SP = 0x0001\<close> the PSW round trip holds: \<open>PUSH PSW\<close> stores \<open>A\<close> at
  \<open>SP - 1\<close> and \<open>F\<close> at \<open>SP - 2\<close>, and a \<open>POP PSW\<close> executed next restores \<open>A\<close>, \<open>F\<close> and
  \<open>SP\<close>, provided bit 1 of \<open>F\<close> was set.
\<close>

lemma PUSH_POP_PSW_roundtrip:
  assumes run: "\<not> halted s" "mem s (PC s) = 0xF5"
    and sp: "SP s \<noteq> 1"
    and fixed: "F s AND 0x02 = 0x02"
  shows "\<exists>s1. Step8080 s io w = Inr (11, s1, w) \<and> SP s1 = SP s - 2 \<and> PC s1 = PC s + 1
           \<and> mem s1 (SP s - 1) = A s \<and> mem s1 (SP s - 2) = F s
           \<and> (mem s1 (PC s1) = 0xF1 \<longrightarrow>
                (\<exists>s2. Step8080 s1 io w = Inr (10, s2, w) \<and> A s2 = A s \<and> F s2 = F s
                   \<and> SP s2 = SP s))"
proof -
  define s1 where "s1 = s\<lparr>PC := PC s + 1, SP := SP s - 2,
    mem := (mem s)(SP s - 2 := F s, SP s - 1 := A s)\<rparr>"
  have top: "SP s - 2 \<noteq> 0xFFFF"
  proof
    assume "SP s - 2 = 0xFFFF"
    then have "SP s = 0xFFFF + 2"
      by (simp add: algebra_simps)
    with sp show False by simp
  qed
  have succ: "SP s - 2 + 1 = SP s - 1"
    by simp
  have neq: "SP s - 2 \<noteq> SP s - 1"
    by simp
  have push: "Step8080 s io w = Inr (11, s1, w)"
    using run
    by (simp add: step_defs ret_stack_def op_PUSH_def push16_def rp_read_psw_def PSW_def
        write16_inside [OF top] pair16_low pair16_high succ s1_def)
  have pop: "Step8080 s1 io w = Inr (10, s1\<lparr>PC := PC s + 2, SP := SP s, A := A s, F := F s\<rparr>, w)"
    if "mem s1 (PC s1) = 0xF1"
  proof -
    have f: "mem s1 (PC s + 1) = 0xF1" "\<not> halted s1"
      using that run by (simp_all add: s1_def)
    have r: "read16 (s1\<lparr>PC := p\<rparr>) (SP s - 2) = Inr (pair16 (A s) (F s))" for p
      using neq by (simp add: read16_inside [OF top] succ s1_def)
    have pc: "PC s1 = PC s + 1" and sp1: "SP s1 = SP s - 2"
      by (simp_all add: s1_def)
    show ?thesis
      using f
      by (simp add: step_defs ret_stack_def op_POP_def pop16_def rp_write_psw_def setPSW_def
          pc sp1 r pair16_low pair16_high FLAG_FIXED_def or_fixed_absorb [OF fixed])
  qed
  show ?thesis
  proof (rule exI [of _ s1], intro conjI)
    show "Step8080 s io w = Inr (11, s1, w)"
      by (rule push)
    show "SP s1 = SP s - 2" "PC s1 = PC s + 1" "mem s1 (SP s - 1) = A s"
      by (simp_all add: s1_def)
    show "mem s1 (SP s - 2) = F s"
      using neq by (simp add: s1_def)
    show "mem s1 (PC s1) = 0xF1 \<longrightarrow>
        (\<exists>s2. Step8080 s1 io w = Inr (10, s2, w) \<and> A s2 = A s \<and> F s2 = F s \<and> SP s2 = SP s)"
      using pop by simp
  qed
qed

section \<open>The fixed flag bits\<close>

lemma bit_0x2A: "bit (0x2A :: u8) n = (n = 1 \<or> n = 3 \<or> n = 5)"
proof (cases "n < 8")
  case True
  then consider "n = 0" | "n = 1" | "n = 2" | "n = 3" | "n = 4" | "n = 5" | "n = 6" | "n = 7"
    by linarith
  then show ?thesis
    by cases simp_all
next
  case False
  then show ?thesis
    using bit_imp_le_length [of "0x2A :: u8" n] by auto
qed

lemma put_bit_fixed:
  "k < 8 \<Longrightarrow> k \<noteq> 1 \<Longrightarrow> k \<noteq> 3 \<Longrightarrow> k \<noteq> 5 \<Longrightarrow> put_bit k v f AND 0x2A = f AND 0x2A"
  by (rule bit_word_eqI)
    (auto simp add: bit_and_iff bit_put_bit bit_0x2A simp del: bit_numeral_word_iff)

lemma set_flag_fixed:
  "F (set_cy s v) AND 0x2A = F s AND 0x2A"
  "F (set_p s v) AND 0x2A = F s AND 0x2A"
  "F (set_ac s v) AND 0x2A = F s AND 0x2A"
  "F (set_z s v) AND 0x2A = F s AND 0x2A"
  "F (set_s s v) AND 0x2A = F s AND 0x2A"
  using put_bit_fixed [of 0 v "F s"] put_bit_fixed [of 2 v "F s"] put_bit_fixed [of 4 v "F s"]
    put_bit_fixed [of 6 v "F s"] put_bit_fixed [of 7 v "F s"]
  by (simp_all add: set_flag_eqs put_bit_def)

lemma update_szp_fixed: "F (update_szp s r) AND 0x2A = F s AND 0x2A"
  by (simp add: update_szp_def Let_def set_flag_fixed)

lemma update_flags_add_fixed: "F (update_flags_add s full lhs rhs c) AND 0x2A = F s AND 0x2A"
  by (simp add: update_flags_add_def Let_def set_flag_fixed update_szp_fixed)

lemma update_flags_sub_fixed: "F (update_flags_sub s lhs rhs b) AND 0x2A = F s AND 0x2A"
  by (simp add: update_flags_sub_def Let_def set_flag_fixed update_szp_fixed)

lemmas flag_fixed = set_flag_fixed update_szp_fixed update_flags_add_fixed update_flags_sub_fixed

lemma F_reg_write: "F (reg_write s f v) = F s"
  by (simp add: reg_write_def Let_def)

lemma F_rp_write: "F (rp_write s rp v) = F s"
  by (simp add: rp_write_def Let_def setBC_def setDE_def setHL_def)

lemma F_push16: "push16 s v = Inr s' \<Longrightarrow> F s' = F s"
  by (auto simp add: push16_def write16_def mem_set_def Let_def split: if_splits)

lemma F_pop16: "pop16 s = Inr (v, s') \<Longrightarrow> F s' = F s"
  by (auto simp add: pop16_def split: sum.splits)

lemma op_pure_fixed:
  "F (snd (op_MVI s ddd)) AND 0x2A = F s AND 0x2A"
  "F (snd (op_LXI s rp)) AND 0x2A = F s AND 0x2A"
  "F (snd (op_LDA s)) AND 0x2A = F s AND 0x2A"
  "F (snd (op_STA s)) AND 0x2A = F s AND 0x2A"
  "F (snd (op_LHLD s)) AND 0x2A = F s AND 0x2A"
  "F (snd (op_SHLD s)) AND 0x2A = F s AND 0x2A"
  "F (snd (op_XCHG s)) AND 0x2A = F s AND 0x2A"
  "F (snd (op_INX s rp)) AND 0x2A = F s AND 0x2A"
  "F (snd (op_DCX s rp)) AND 0x2A = F s AND 0x2A"
  "F (snd (op_JMP s)) AND 0x2A = F s AND 0x2A"
  "F (snd (op_Jccc s opcode)) AND 0x2A = F s AND 0x2A"
  "F (snd (op_MOV s ddd sss)) AND 0x2A = F s AND 0x2A"
  by (simp_all add: op_MVI_def op_LXI_def op_LDA_def op_STA_def op_LHLD_def op_SHLD_def
      op_XCHG_def op_INX_def op_DCX_def op_JMP_def op_Jccc_def op_MOV_def
      next8_def next16_def Let_def write8_def setHL_def setDE_def F_reg_write F_rp_write)

lemma op_arith_fixed:
  "F (snd (op_ADD s sss)) AND 0x2A = F s AND 0x2A"
  "F (snd (op_ADI s)) AND 0x2A = F s AND 0x2A"
  "F (snd (op_ADC s sss)) AND 0x2A = F s AND 0x2A"
  "F (snd (op_ACI s)) AND 0x2A = F s AND 0x2A"
  "F (snd (op_SUB s sss)) AND 0x2A = F s AND 0x2A"
  "F (snd (op_SUI s)) AND 0x2A = F s AND 0x2A"
  "F (snd (op_SBB s sss)) AND 0x2A = F s AND 0x2A"
  "F (snd (op_SBI s)) AND 0x2A = F s AND 0x2A"
  "F (snd (op_CMP s sss)) AND 0x2A = F s AND 0x2A"
  "F (snd (op_CPI s)) AND 0x2A = F s AND 0x2A"
  "F (snd (op_INR s ddd)) AND 0x2A = F s AND 0x2A"
  "F (snd (op_DCR s ddd)) AND 0x2A = F s AND 0x2A"
  "F (snd (op_DAD s rp)) AND 0x2A = F s AND 0x2A"
  "F (snd (op_DAA s)) AND 0x2A = F s AND 0x2A"
  by (simp_all add: op_ADD_def op_ADI_def op_ADC_def op_ACI_def op_SUB_def op_SUI_def
      op_SBB_def op_SBI_def op_CMP_def op_CPI_def op_INR_def op_DCR_def op_DAD_def op_DAA_def
      next8_def Let_def setHL_def F_reg_write flag_fixed del: of_int_add)

lemma op_logic_fixed:
  "F (snd (op_ANA s sss)) AND 0x2A = F s AND 0x2A"
  "F (snd (op_ANI s)) AND 0x2A = F s AND 0x2A"
  "F (snd (op_ORA s sss)) AND 0x2A = F s AND 0x2A"
  "F (snd (op_ORI s)) AND 0x2A = F s AND 0x2A"
  "F (snd (op_XRA s sss)) AND 0x2A = F s AND 0x2A"
  "F (snd (op_XRI s)) AND 0x2A = F s AND 0x2A"
  "F (snd (op_RLC s)) AND 0x2A = F s AND 0x2A"
  "F (snd (op_RRC s)) AND 0x2A = F s AND 0x2A"
  "F (snd (op_RAL s)) AND 0x2A = F s AND 0x2A"
  "F (snd (op_RAR s)) AND 0x2A = F s AND 0x2A"
  by (simp_all add: op_ANA_def op_ANI_def op_ORA_def op_ORI_def op_XRA_def op_XRI_def
      op_RLC_def op_RRC_def op_RAL_def op_RAR_def next8_def Let_def flag_fixed)

lemma op_stack_fixed:
  "op_CALL s = Inr (c, s') \<Longrightarrow> F s' = F s"
  "op_Cccc s opcode = Inr (c, s') \<Longrightarrow> F s' = F s"
  "op_RET s = Inr (c, s') \<Longrightarrow> F s' = F s"
  "op_Rccc s opcode = Inr (c, s') \<Longrightarrow> F s' = F s"
  "op_RST s opcode = Inr (c, s') \<Longrightarrow> F s' = F s"
  "op_PUSH s rp = Inr (c, s') \<Longrightarrow> F s' = F s"
  "op_XTHL s = Inr (c, s') \<Longrightarrow> F s' = F s"
  by (auto simp add: op_CALL_def op_Cccc_def op_RET_def op_Rccc_def op_RST_def op_PUSH_def
      op_XTHL_def next16_def next8_def Let_def setHL_def read16_def write16_def mem_get_def
      mem_set_def
      split: sum.splits if_splits dest!: F_push16 F_pop16)

lemma op_POP_fixed:
  "op_POP s rp = Inr (c, s') \<Longrightarrow> rp AND 0x03 \<noteq> 3 \<Longrightarrow> F s' = F s"
  "op_POP s rp = Inr (c, s') \<Longrightarrow> rp AND 0x03 = 3 \<Longrightarrow> F s' AND 0x02 = 0x02"
  by (auto simp add: op_POP_def rp_write_psw_def F_rp_write setPSW_def FLAG_FIXED_def
      bit.conj_disj_distrib2
      split: sum.splits dest!: F_pop16)

lemma op_io_fixed:
  "F (fst (snd (op_IN s io w))) = F s"
  "F (fst (snd (op_OUT s io w))) = F s"
  by (simp_all add: op_IN_def op_OUT_def next8_def Let_def split: option.splits prod.splits)

lemma keeps_fixed_ret: "F (snd r) AND 0x2A = f AND 0x2A \<Longrightarrow> keeps_fixed f (ret r w)"
  by (simp add: keeps_fixed_def ret_def)

lemma keeps_fixed_io:
  "F t = f \<Longrightarrow> keeps_fixed f (Inr (op_IN t io w))"
  "F t = f \<Longrightarrow> keeps_fixed f (Inr (op_OUT t io w))"
  using op_io_fixed [of t io w]
  by (auto simp add: keeps_fixed_def split: prod.splits)

lemma keeps_fixed_stack:
  "F t = f \<Longrightarrow> keeps_fixed f (ret_stack (op_CALL t) w)"
  "F t = f \<Longrightarrow> keeps_fixed f (ret_stack (op_Cccc t opcode) w)"
  "F t = f \<Longrightarrow> keeps_fixed f (ret_stack (op_RET t) w)"
  "F t = f \<Longrightarrow> keeps_fixed f (ret_stack (op_Rccc t opcode) w)"
  "F t = f \<Longrightarrow> keeps_fixed f (ret_stack (op_RST t opcode) w)"
  "F t = f \<Longrightarrow> keeps_fixed f (ret_stack (op_PUSH t rp) w)"
  "F t = f \<Longrightarrow> keeps_fixed f (ret_stack (op_XTHL t) w)"
  by (auto simp add: keeps_fixed_def ret_stack_def split: sum.splits dest!: op_stack_fixed)

lemma keeps_fixed_POP:
  "F t = f \<Longrightarrow> rp AND 0x03 \<noteq> 3 \<Longrightarrow> keeps_fixed f (ret_stack (op_POP t rp) w)"
  by (auto simp add: keeps_fixed_def ret_stack_def split: sum.splits dest!: op_POP_fixed(1))

lemma keeps_fixed_if:
  "(c \<Longrightarrow> keeps_fixed f a) \<Longrightarrow> (\<not> c \<Longrightarrow> keeps_fixed f b) \<Longrightarrow> keeps_fixed f (if c then a else b)"
  by simp

lemma Step8080_keeps_fixed:
  assumes "halted s \<or> mem s (PC s) \<noteq> 0xF1"
  shows "keeps_fixed (F s) (Step8080 s io w)"
  unfolding Step8080_def Let_def next8_def prod.case
  apply (intro keeps_fixed_if)
  apply (simp_all (no_asm) add: keeps_fixed_ret keeps_fixed_io keeps_fixed_stack
      op_pure_fixed op_arith_fixed op_logic_fixed flag_fixed read8_def write8_def)
  apply (simp add: keeps_fixed_def)
  using assms apply (auto intro!: keeps_fixed_POP)
  done

text \<open>
  The fixed flag bits in every other case: each instruction but \<open>POP PSW\<close> (0xF1) leaves
  bits 1, 3 and 5 of \<open>F\<close> as they were, and after \<open>POP PSW\<close> bit 1 is set.
\<close>

lemma Step8080_fixed_bits:
  assumes "Step8080 s io w = Inr (c, s', w')"
  shows "(halted s \<or> mem s (PC s) \<noteq> 0xF1 \<longrightarrow> F s' AND 0x2A = F s AND 0x2A)
    \<and> (\<not> halted s \<and> mem s (PC s) = 0xF1 \<longrightarrow> F s' AND 0x02 = 0x02)"
proof (intro conjI impI)
  assume "halted s \<or> mem s (PC s) \<noteq> 0xF1"
  then have "keeps_fixed (F s) (Step8080 s io w)"
    by (rule Step8080_keeps_fixed)
  with assms show "F s' AND 0x2A = F s AND 0x2A"
    by (simp add: keeps_fixed_def)
next
  assume h: "\<not> halted s \<and> mem s (PC s) = 0xF1"
  with assms have "ret_stack (op_POP (s\<lparr>PC := PC s + 1\<rparr>) 3) w = Inr (c, s', w')"
    by (simp add: step_defs)
  then have "op_POP (s\<lparr>PC := PC s + 1\<rparr>) 3 = Inr (c, s')"
    by (simp add: ret_stack_def split: sum.splits prod.splits)
  then show "F s' AND 0x02 = 0x02"
    by (rule op_POP_fixed(2)) simp
qed

section \<open>Where the step function returns\<close>

lemma push16_inside: "SP s \<noteq> 1 \<Longrightarrow> \<not> isl (push16 s v)"
proof -
  assume sp: "SP s \<noteq> 1"
  have "SP s - 2 \<noteq> 0xFFFF"
  proof
    assume "SP s - 2 = 0xFFFF"
    then have "SP s = 0xFFFF + 2"
      by (simp add: algebra_simps)
    with sp show False by simp
  qed
  then show ?thesis
    by (simp add: push16_def write16_inside)
qed

lemma pop16_inside: "SP s \<noteq> 0xFFFF \<Longrightarrow> \<not> isl (pop16 s)"
  by (simp add: pop16_def read16_inside)

lemma SP_next16: "SP (snd (next16 s)) = SP s"
  by (simp add: next16_def next8_def Let_def)

lemma not_isl_ret: "\<not> isl (ret r w)"
  by (simp add: ret_def)

lemma not_isl_ret_stack: "\<not> isl r \<Longrightarrow> \<not> isl (ret_stack r w)"
  by (cases r) (simp_all add: ret_stack_def split: prod.splits)

lemma op_stack_inside:
  "SP s \<noteq> 1 \<Longrightarrow> \<not> isl (op_CALL s)"
  "SP s \<noteq> 1 \<Longrightarrow> \<not> isl (op_Cccc s opcode)"
  "SP s \<noteq> 0xFFFF \<Longrightarrow> \<not> isl (op_RET s)"
  "SP s \<noteq> 0xFFFF \<Longrightarrow> \<not> isl (op_Rccc s opcode)"
  "SP s \<noteq> 1 \<Longrightarrow> \<not> isl (op_RST s opcode)"
  "SP s \<noteq> 1 \<Longrightarrow> \<not> isl (op_PUSH s rp)"
  "SP s \<noteq> 0xFFFF \<Longrightarrow> \<not> isl (op_POP s rp)"
  "SP s \<noteq> 0xFFFF \<Longrightarrow> \<not> isl (op_XTHL s)"
  using push16_inside [of "snd (next16 s)" "PC (snd (next16 s))"] push16_inside [of s "PC s"]
    push16_inside [of s "rp_read_psw s rp"] pop16_inside [of s]
  by (auto simp add: op_CALL_def op_Cccc_def op_RET_def op_Rccc_def op_RST_def op_PUSH_def
      op_POP_def op_XTHL_def SP_next16 Let_def read16_inside write16_inside
      split: sum.splits prod.splits)

lemma not_isl_if:
  "(c \<Longrightarrow> \<not> isl a) \<Longrightarrow> (\<not> c \<Longrightarrow> \<not> isl b) \<Longrightarrow> \<not> isl (if c then a else b)"
  by simp

text \<open>
  Unless the stack pointer is \<open>0xFFFF\<close> or \<open>0x0001\<close>, so that a 16-bit access would
  start at \<open>0xFFFF\<close>, every instruction stays inside the array and the step returns.
\<close>

lemma Step8080_returns:
  assumes "SP s \<noteq> 0xFFFF" "SP s \<noteq> 1"
  shows "\<not> isl (Step8080 s io w)"
  unfolding Step8080_def Let_def next8_def prod.case
  apply (intro not_isl_if)
  using assms apply (simp_all (no_asm_simp) add: not_isl_ret not_isl_ret_stack op_stack_inside)
  done

section \<open>The sub-class instructions\<close>

lemma sub_class_result_eq: "sub_class_result lhs rhs bin = lhs - rhs - bin"
proof -
  have "sub_class_result lhs rhs bin = word_of_int (uint (lhs - rhs - bin))"
    by (simp only: sub_class_result_def uint_sub_result)
  then show ?thesis
    by simp
qed

lemma update_flags_sub_frame:
  "update_flags_sub t lhs rhs bin = t\<lparr>F := F (update_flags_sub t lhs rhs bin)\<rparr>"
  by (simp add: update_flags_sub_eq)

lemma update_flags_sub_flags:
  assumes "F t = F s" and "F s' = F (update_flags_sub t lhs rhs bin)"
  shows "sub_class_flags s lhs rhs bin s'"
proof -
  have "F s' AND 0x2A = F s AND 0x2A"
    using assms by (simp add: update_flags_sub_fixed)
  then show ?thesis
    using assms(2)
    by (simp add: sub_class_flags_def Let_def sub_class_result_eq flag_bits
        bit_F_update_flags_sub)
qed

lemma sub_class_outcomeI:
  assumes u: "u = update_flags_sub (s\<lparr>PC := p\<rparr>) (A s) rhs bin"
    and s': "s' = (if stores then u\<lparr>A := A s - rhs - bin\<rparr> else u)"
  shows "sub_class_outcome s rhs bin stores p s'"
proof -
  have fr: "u = s\<lparr>PC := p, F := F u\<rparr>"
    using update_flags_sub_frame [of "s\<lparr>PC := p\<rparr>" "A s" rhs bin] u by simp
  have F: "F s' = F (update_flags_sub (s\<lparr>PC := p\<rparr>) (A s) rhs bin)"
    using u s' by simp
  have flags: "sub_class_flags s (A s) rhs bin s'"
    by (rule update_flags_sub_flags [OF _ F]) simp
  have Au: "A u = A s"
    using arg_cong [OF fr, of A] by simp
  have A: "A s' = (if stores then sub_class_result (A s) rhs bin else A s)"
    using s' Au by (simp add: sub_class_result_eq)
  have "s' = s\<lparr>A := A s', F := F s', PC := p\<rparr>"
  proof (cases stores)
    case True
    then have "s' = u\<lparr>A := A s - rhs - bin\<rparr>"
      using s' by simp
    then have "s' = s\<lparr>PC := p, F := F u, A := A s - rhs - bin\<rparr>"
      using fr by simp
    then show ?thesis
      by simp
  next
    case False
    then have "s' = u"
      using s' by simp
    then have "s' = s\<lparr>PC := p, F := F u\<rparr>"
      using fr by simp
    then show ?thesis
      by simp
  qed
  with flags A show ?thesis
    by (simp add: sub_class_outcome_def)
qed

lemma reg_read_PC: "reg_read (s\<lparr>PC := p\<rparr>) f = reg_read s f"
  by (simp add: reg_read_def HL_def Let_def)

lemma reg_read_and7: "reg_read s (f AND 0x07) = reg_read s f"
  by (simp add: reg_read_def Let_def and.assoc)

lemma flag_cy_PC: "flag_cy (s\<lparr>PC := p\<rparr>) = flag_cy s"
  by (simp add: flag_cy_def)

lemma SUB_family:
  assumes "\<not> halted s" "mem s (PC s) \<in> {0x90, 0x91, 0x92, 0x93, 0x94, 0x95, 0x96, 0x97}"
  shows "\<exists>s'. Step8080 s io w = Inr (if mem s (PC s) AND 0x07 = 6 then 7 else 4, s', w)
           \<and> sub_class_outcome s (reg_read s (mem s (PC s))) 0 True (PC s + 1) s'"
proof -
  let ?t = "s\<lparr>PC := PC s + 1\<rparr>"
  let ?rv = "reg_read s (mem s (PC s))"
  let ?u = "update_flags_sub ?t (A s) ?rv 0"
  have "Step8080 s io w = ret (op_SUB ?t (mem s (PC s) AND 0x07)) w"
    using assms(2) unfolding insert_iff empty_iff
    by (elim disjE) (simp_all add: step_defs assms(1))
  then have "Step8080 s io w = Inr (if mem s (PC s) AND 0x07 = 6 then 7 else 4, ?u\<lparr>A := A s - ?rv\<rparr>, w)"
    by (simp add: ret_def op_SUB_def Let_def reg_read_PC reg_read_and7)
  moreover have "sub_class_outcome s ?rv 0 True (PC s + 1) (?u\<lparr>A := A s - ?rv\<rparr>)"
    by (rule sub_class_outcomeI [where u = ?u]) simp_all
  ultimately show ?thesis
    by blast
qed

lemma SBB_family:
  assumes "\<not> halted s" "mem s (PC s) \<in> {0x98, 0x99, 0x9A, 0x9B, 0x9C, 0x9D, 0x9E, 0x9F}"
  shows "\<exists>s'. Step8080 s io w = Inr (if mem s (PC s) AND 0x07 = 6 then 7 else 4, s', w)
           \<and> sub_class_outcome s (reg_read s (mem s (PC s))) (if flag_cy s then 1 else 0) True
                 (PC s + 1) s'"
proof -
  let ?t = "s\<lparr>PC := PC s + 1\<rparr>"
  let ?rv = "reg_read s (mem s (PC s))"
  let ?cy = "if flag_cy s then 1 else 0 :: u8"
  let ?u = "update_flags_sub ?t (A s) ?rv ?cy"
  have "Step8080 s io w = ret (op_SBB ?t (mem s (PC s) AND 0x07)) w"
    using assms(2) unfolding insert_iff empty_iff
    by (elim disjE) (simp_all add: step_defs assms(1))
  then have "Step8080 s io w
      = Inr (if mem s (PC s) AND 0x07 = 6 then 7 else 4, ?u\<lparr>A := A s - ?rv - ?cy\<rparr>, w)"
    by (simp add: ret_def op_SBB_def Let_def reg_read_PC reg_read_and7 flag_cy_PC)
  moreover have "sub_class_outcome s ?rv ?cy True (PC s + 1) (?u\<lparr>A := A s - ?rv - ?cy\<rparr>)"
    by (rule sub_class_outcomeI [where u = ?u]) simp_all
  ultimately show ?thesis
    by blast
qed

lemma CMP_family:
  assumes "\<not> halted s" "mem s (PC s) \<in> {0xB8, 0xB9, 0xBA, 0xBB, 0xBC, 0xBD, 0xBE, 0xBF}"
  shows "\<exists>s'. Step8080 s io w = Inr (if mem s (PC s) AND 0x07 = 6 then 7 else 4, s', w)
           \<and> sub_class_outcome s (reg_read s (mem s (PC s))) 0 False (PC s + 1) s'"
proof -
  let ?t = "s\<lparr>PC := PC s + 1\<rparr>"
  let ?rv = "reg_read s (mem s (PC s))"
  let ?u = "update_flags_sub ?t (A s) ?rv 0"
  have "Step8080 s io w = ret (op_CMP ?t (mem s (PC s) AND 0x07)) w"
    using assms(2) unfolding insert_iff empty_iff
    by (elim disjE) (simp_all add: step_defs assms(1))
  then have "Step8080 s io w = Inr (if mem s (PC s) AND 0x07 = 6 then 7 else 4, ?u, w)"
    by (simp add: ret_def op_CMP_def Let_def reg_read_PC reg_read_and7)
  moreover have "sub_class_outcome s ?rv 0 False (PC s + 1) ?u"
    by (rule sub_class_outcomeI [where u = ?u]) simp_all
  ultimately show ?thesis
    by blast
qed

lemma PC_plus_2: "s\<lparr>PC := PC s + 1 + 1\<rparr> = s\<lparr>PC := PC s + 2\<rparr>"
  by simp

lemma SUI_step:
  assumes "\<not> halted s" "mem s (PC s) = 0xD6"
  shows "\<exists>s'. Step8080 s io w = Inr (7, s', w)
           \<and> sub_class_outcome s (mem s (PC s + 1)) 0 True
                 (PC s + 2) s'"
proof -
  let ?rv = "mem s (PC s + 1)"
  let ?u = "update_flags_sub (s\<lparr>PC := PC s + 1 + 1\<rparr>) (A s) ?rv 0"
  have pc: "PC s + 1 + 1 = PC s + 2"
    by simp
  have "Step8080 s io w = Inr (7, ?u\<lparr>A := A s - ?rv\<rparr>, w)"
    using assms by (simp add: step_defs op_SUI_def)
  moreover have "sub_class_outcome s ?rv 0 True (PC s + 1 + 1) (?u\<lparr>A := A s - ?rv\<rparr>)"
    by (rule sub_class_outcomeI [where u = ?u]) simp_all
  ultimately show ?thesis
    unfolding pc by blast
qed

lemma SBI_step:
  assumes "\<not> halted s" "mem s (PC s) = 0xDE"
  shows "\<exists>s'. Step8080 s io w = Inr (7, s', w)
           \<and> sub_class_outcome s (mem s (PC s + 1)) (if flag_cy s then 1 else 0) True
                 (PC s + 2) s'"
proof -
  let ?rv = "mem s (PC s + 1)"
  let ?cy = "if flag_cy s then 1 else 0 :: u8"
  let ?u = "update_flags_sub (s\<lparr>PC := PC s + 1 + 1\<rparr>) (A s) ?rv ?cy"
  have pc: "PC s + 1 + 1 = PC s + 2"
    by simp
  have "Step8080 s io w = Inr (7, ?u\<lparr>A := A s - ?rv - ?cy\<rparr>, w)"
    using assms by (simp add: step_defs op_SBI_def flag_cy_PC)
  moreover have "sub_class_outcome s ?rv ?cy True (PC s + 1 + 1) (?u\<lparr>A := A s - ?rv - ?cy\<rparr>)"
    by (rule sub_class_outcomeI [where u = ?u]) simp_all
  ultimately show ?thesis
    unfolding pc by blast
qed

lemma CPI_step:
  assumes "\<not> halted s" "mem s (PC s) = 0xFE"
  shows "\<exists>s'. Step8080 s io w = Inr (7, s', w)
           \<and> sub_class_outcome s (mem s (PC s + 1)) 0 False
                 (PC s + 2) s'"
proof -
  let ?rv = "mem s (PC s + 1)"
  let ?u = "update_flags_sub (s\<lparr>PC := PC s + 1 + 1\<rparr>) (A s) ?rv 0"
  have pc: "PC s + 1 + 1 = PC s + 2"
    by simp
  have "Step8080 s io w = Inr (7, ?u, w)"
    using assms by (simp add: step_defs op_CPI_def)
  moreover have "sub_class_outcome s ?rv 0 False (PC s + 1 + 1) (?u)"
    by (rule sub_class_outcomeI [where u = ?u]) simp_all
  ultimately show ?thesis
    unfolding pc by blast
qed

text \<open>
  Claim C1. Each of SUB, SUI, SBB, SBI, CMP and CPI, executed by the step function on
  any state, applies the sub-class flag update to \<open>A\<close>, its operand and its borrow (the
  carry flag for SBB and SBI, 0 otherwise): the result is \<open>(lhs - rhs - borrow_in) mod 256\<close>,
  stored in \<open>A\<close> by all but CMP and CPI; S, Z and P come from the result; CY is set iff
  \<open>lhs < rhs + borrow_in\<close>; AC is set iff the difference of the low nibbles minus the
  borrow, computed over the integers, is negative; bits 1, 3 and 5 of \<open>F\<close>, and everything
  but \<open>A\<close>, \<open>F\<close> and \<open>PC\<close>, are unchanged. The helper \<open>update_flags_sub\<close> itself follows the
  rule for all operands and every borrow and changes nothing but \<open>F\<close>. With \<open>A = 0x3E\<close>,
  \<open>B = 0x3E\<close> and \<open>F = 0x03\<close>, \<open>SBB B\<close> (0x98) yields \<open>A = 0xFF\<close>, \<open>F = 0x97\<close> in 4 cycles.
\<close>

theorem sub_class_rule:
  "sub_class_flags s lhs rhs borrow_in (update_flags_sub s lhs rhs borrow_in)
   \<and> update_flags_sub s lhs rhs borrow_in = s\<lparr>F := F (update_flags_sub s lhs rhs borrow_in)\<rparr>
   \<and> uint (sub_class_result lhs rhs borrow_in) = (uint lhs - uint rhs - uint borrow_in) mod 256
   \<and> (\<not> halted s \<and> mem s (PC s) \<in> {0x90, 0x91, 0x92, 0x93, 0x94, 0x95, 0x96, 0x97} \<longrightarrow>
        (\<exists>s'. Step8080 s io w = Inr (if mem s (PC s) AND 0x07 = 6 then 7 else 4, s', w)
           \<and> sub_class_outcome s (reg_read s (mem s (PC s))) 0 True (PC s + 1) s'))
   \<and> (\<not> halted s \<and> mem s (PC s) = 0xD6 \<longrightarrow>
        (\<exists>s'. Step8080 s io w = Inr (7, s', w)
           \<and> sub_class_outcome s (mem s (PC s + 1)) 0 True (PC s + 2) s'))
   \<and> (\<not> halted s \<and> mem s (PC s) \<in> {0x98, 0x99, 0x9A, 0x9B, 0x9C, 0x9D, 0x9E, 0x9F} \<longrightarrow>
        (\<exists>s'. Step8080 s io w = Inr (if mem s (PC s) AND 0x07 = 6 then 7 else 4, s', w)
           \<and> sub_class_outcome s (reg_read s (mem s (PC s))) (if flag_cy s then 1 else 0) True
                 (PC s + 1) s'))
   \<and> (\<not> halted s \<and> mem s (PC s) = 0xDE \<longrightarrow>
        (\<exists>s'. Step8080 s io w = Inr (7, s', w)
           \<and> sub_class_outcome s (mem s (PC s + 1)) (if flag_cy s then 1 else 0) True
                 (PC s + 2) s'))
   \<and> (\<not> halted s \<and> mem s (PC s) \<in> {0xB8, 0xB9, 0xBA, 0xBB, 0xBC, 0xBD, 0xBE, 0xBF} \<longrightarrow>
        (\<exists>s'. Step8080 s io w = Inr (if mem s (PC s) AND 0x07 = 6 then 7 else 4, s', w)
           \<and> sub_class_outcome s (reg_read s (mem s (PC s))) 0 False (PC s + 1) s'))
   \<and> (\<not> halted s \<and> mem s (PC s) = 0xFE \<longrightarrow>
        (\<exists>s'. Step8080 s io w = Inr (7, s', w)
           \<and> sub_class_outcome s (mem s (PC s + 1)) 0 False (PC s + 2) s'))
   \<and> (\<not> halted s \<and> mem s (PC s) = 0x98 \<and> A s = 0x3E \<and> B s = 0x3E \<and> F s = 0x03 \<longrightarrow>
        Step8080 s io w = Inr (4, s\<lparr>A := 0xFF, F := 0x97, PC := PC s + 1\<rparr>, w))"
proof (intro conjI impI)
  show "sub_class_flags s lhs rhs borrow_in (update_flags_sub s lhs rhs borrow_in)"
    by (rule update_flags_sub_flags) simp_all
  show "update_flags_sub s lhs rhs borrow_in = s\<lparr>F := F (update_flags_sub s lhs rhs borrow_in)\<rparr>"
    by (rule update_flags_sub_frame)
  show "uint (sub_class_result lhs rhs borrow_in) = (uint lhs - uint rhs - uint borrow_in) mod 256"
    by (simp only: sub_class_result_eq uint_sub_result)
next
  assume h: "\<not> halted s \<and> mem s (PC s) \<in> {0x90, 0x91, 0x92, 0x93, 0x94, 0x95, 0x96, 0x97}"
  show "\<exists>s'. Step8080 s io w = Inr (if mem s (PC s) AND 0x07 = 6 then 7 else 4, s', w)
           \<and> sub_class_outcome s (reg_read s (mem s (PC s))) 0 True (PC s + 1) s'"
    by (rule SUB_family [OF conjunct1 [OF h] conjunct2 [OF h]])
next
  assume h: "\<not> halted s \<and> mem s (PC s) = 0xD6"
  show "\<exists>s'. Step8080 s io w = Inr (7, s', w)
           \<and> sub_class_outcome s (mem s (PC s + 1)) 0 True (PC s + 2) s'"
    by (rule SUI_step [OF conjunct1 [OF h] conjunct2 [OF h]])
next
  assume h: "\<not> halted s \<and> mem s (PC s) \<in> {0x98, 0x99, 0x9A, 0x9B, 0x9C, 0x9D, 0x9E, 0x9F}"
  show "\<exists>s'. Step8080 s io w = Inr (if mem s (PC s) AND 0x07 = 6 then 7 else 4, s', w)
           \<and> sub_class_outcome s (reg_read s (mem s (PC s))) (if flag_cy s then 1 else 0) True
                 (PC s + 1) s'"
    by (rule SBB_family [OF conjunct1 [OF h] conjunct2 [OF h]])
next
  assume h: "\<not> halted s \<and> mem s (PC s) = 0xDE"
  show "\<exists>s'. Step8080 s io w = Inr (7, s', w)
           \<and> sub_class_outcome s (mem s (PC s + 1)) (if flag_cy s then 1 else 0) True
                 (PC s + 2) s'"
    by (rule SBI_step [OF conjunct1 [OF h] conjunct2 [OF h]])
next
  assume h: "\<not> halted s \<and> mem s (PC s) \<in> {0xB8, 0xB9, 0xBA, 0xBB, 0xBC, 0xBD, 0xBE, 0xBF}"
  show "\<exists>s'. Step8080 s io w = Inr (if mem s (PC s) AND 0x07 = 6 then 7 else 4, s', w)
           \<and> sub_class_outcome s (reg_read s (mem s (PC s))) 0 False (PC s + 1) s'"
    by (rule CMP_family [OF conjunct1 [OF h] conjunct2 [OF h]])
next
  assume h: "\<not> halted s \<and> mem s (PC s) = 0xFE"
  show "\<exists>s'. Step8080 s io w = Inr (7, s', w)
           \<and> sub_class_outcome s (mem s (PC s + 1)) 0 False (PC s + 2) s'"
    by (rule CPI_step [OF conjunct1 [OF h] conjunct2 [OF h]])
next
  assume "\<not> halted s \<and> mem s (PC s) = 0x98 \<and> A s = 0x3E \<and> B s = 0x3E \<and> F s = 0x03"
  then show "Step8080 s io w = Inr (4, s\<lparr>A := 0xFF, F := 0x97, PC := PC s + 1\<rparr>, w)"
    by (simp add: SBB_B_scenario)
qed

theorem sub_class_rule_witness:
  "Step8080 (init_state\<lparr>A := 0x3E, B := 0x3E, F := 0x03, mem := (\<lambda>_. 0)(0 := 0x98)\<rparr>) no_io ()
     = Inr (4, init_state\<lparr>A := 0xFF, B := 0x3E, F := 0x97, mem := (\<lambda>_. 0)(0 := 0x98), PC := 1\<rparr>, ())
   \<and> flag_ac (update_flags_sub init_state 0x3E 0x3E 1)
   \<and> flag_cy (update_flags_sub init_state 0x3E 0x3E 1)
   \<and> (\<exists>s'. Step8080 (init_state\<lparr>A := 0x05, B := 0x06, mem := (\<lambda>_. 0)(0 := 0x90)\<rparr>) no_io ()
            = Inr (4, s', ())
          \<and> A s' = 0xFF \<and> flag_cy s' \<and> flag_ac s' \<and> flag_s s' \<and> \<not> flag_z s' \<and> PC s' = 1)
   \<and> (\<exists>s'. Step8080 (init_state\<lparr>A := 0x05, B := 0x06, mem := (\<lambda>_. 0)(0 := 0xB8)\<rparr>) no_io ()
            = Inr (4, s', ())
          \<and> A s' = 0x05 \<and> flag_cy s' \<and> flag_ac s' \<and> flag_s s' \<and> \<not> flag_z s' \<and> PC s' = 1)"
proof -
  let ?sbb = "init_state\<lparr>A := 0x3E, B := 0x3E, F := 0x03, mem := (\<lambda>_. 0)(0 := 0x98)\<rparr>"
  let ?sub = "init_state\<lparr>A := 0x05, B := 0x06, mem := (\<lambda>_. 0)(0 := 0x90)\<rparr>"
  let ?cmp = "init_state\<lparr>A := 0x05, B := 0x06, mem := (\<lambda>_. 0)(0 := 0xB8)\<rparr>"
  note rule_sbb = sub_class_rule [of ?sbb 0 0 0 no_io "()"]
  note rule_sub = sub_class_rule [of ?sub 0 0 0 no_io "()"]
  note rule_cmp = sub_class_rule [of ?cmp 0 0 0 no_io "()"]
  note rule_upd = sub_class_rule [of init_state "0x3E" "0x3E" 1 no_io "()"]
  have scen: "Step8080 ?sbb no_io ()
      = Inr (4, init_state\<lparr>A := 0xFF, B := 0x3E, F := 0x97, mem := (\<lambda>_. 0)(0 := 0x98), PC := 1\<rparr>, ())"
  proof -
    have h: "\<not> halted ?sbb \<and> mem ?sbb (PC ?sbb) = 0x98 \<and> A ?sbb = 0x3E \<and> B ?sbb = 0x3E
        \<and> F ?sbb = 0x03"
      by (simp add: init_state_def)
    have "Step8080 ?sbb no_io () = Inr (4, ?sbb\<lparr>A := 0xFF, F := 0x97, PC := PC ?sbb + 1\<rparr>, ())"
      using rule_sbb h by (elim conjE) (erule mp, simp)
    then show ?thesis
      by (simp add: init_state_def)
  qed
  have upd: "sub_class_flags init_state 0x3E 0x3E 1 (update_flags_sub init_state 0x3E 0x3E 1)"
    using rule_upd by (rule conjunct1)
  then have ac: "flag_ac (update_flags_sub init_state 0x3E 0x3E 1)"
    and cy: "flag_cy (update_flags_sub init_state 0x3E 0x3E 1)"
    by (simp_all add: sub_class_flags_def Let_def)
  have sub: "\<exists>s'. Step8080 ?sub no_io () = Inr (4, s', ())
          \<and> A s' = 0xFF \<and> flag_cy s' \<and> flag_ac s' \<and> flag_s s' \<and> \<not> flag_z s' \<and> PC s' = 1"
  proof -
    have h: "\<not> halted ?sub \<and> mem ?sub (PC ?sub) \<in> {0x90, 0x91, 0x92, 0x93, 0x94, 0x95, 0x96, 0x97}"
      by (simp add: init_state_def)
    have "\<exists>s'. Step8080 ?sub no_io () = Inr (if mem ?sub (PC ?sub) AND 0x07 = 6 then 7 else 4, s', ())
           \<and> sub_class_outcome ?sub (reg_read ?sub (mem ?sub (PC ?sub))) 0 True (PC ?sub + 1) s'"
      using rule_sub h by (elim conjE) (erule mp, simp)
    then obtain s' where st: "Step8080 ?sub no_io () = Inr (if mem ?sub (PC ?sub) AND 0x07 = 6 then 7 else 4, s', ())"
      and out: "sub_class_outcome ?sub (reg_read ?sub (mem ?sub (PC ?sub))) 0 True (PC ?sub + 1) s'"
      by (elim exE conjE)
    have o: "sub_class_flags ?sub (A ?sub) (reg_read ?sub (mem ?sub (PC ?sub))) 0 s'
        \<and> A s' = (if True then sub_class_result (A ?sub) (reg_read ?sub (mem ?sub (PC ?sub))) 0
             else A ?sub)
        \<and> s' = ?sub\<lparr>A := A s', F := F s', PC := PC ?sub + 1\<rparr>"
      using out unfolding sub_class_outcome_def .
    have ev: "A ?sub = 0x05" "reg_read ?sub (mem ?sub (PC ?sub)) = 0x06"
      by (simp_all add: init_state_def reg_read_def)
    have fl: "sub_class_flags ?sub 0x05 0x06 0 s'"
      using conjunct1 [OF o] by (simp only: ev)
    have a: "A s' = sub_class_result 0x05 0x06 0"
      using conjunct1 [OF conjunct2 [OF o]] by (simp only: ev if_True if_False)
    have pc: "PC s' = 1"
      using arg_cong [OF conjunct2 [OF conjunct2 [OF o]], of PC] by (simp add: init_state_def)
    have r: "sub_class_result 0x05 0x06 0 = 0xFF"
      by (simp add: sub_class_result_def)
    have "Step8080 ?sub no_io () = Inr (4, s', ())"
      using st by (simp add: init_state_def)
    moreover have "A s' = 0xFF"
      using a r by simp
    moreover have "flag_cy s'" "flag_ac s'" "flag_s s'" "\<not> flag_z s'"
      using fl by (simp_all add: sub_class_flags_def Let_def r)
    ultimately show ?thesis
      using pc by (intro exI [of _ s'] conjI)
  qed
  have cmp: "\<exists>s'. Step8080 ?cmp no_io () = Inr (4, s', ())
          \<and> A s' = 0x05 \<and> flag_cy s' \<and> flag_ac s' \<and> flag_s s' \<and> \<not> flag_z s' \<and> PC s' = 1"
  proof -
    have h: "\<not> halted ?cmp \<and> mem ?cmp (PC ?cmp) \<in> {0xB8, 0xB9, 0xBA, 0xBB, 0xBC, 0xBD, 0xBE, 0xBF}"
      by (simp add: init_state_def)
    have "\<exists>s'. Step8080 ?cmp no_io () = Inr (if mem ?cmp (PC ?cmp) AND 0x07 = 6 then 7 else 4, s', ())
           \<and> sub_class_outcome ?cmp (reg_read ?cmp (mem ?cmp (PC ?cmp))) 0 False (PC ?cmp + 1) s'"
      using rule_cmp h by (elim conjE) (erule mp, simp)
    then obtain s' where st: "Step8080 ?cmp no_io () = Inr (if mem ?cmp (PC ?cmp) AND 0x07 = 6 then 7 else 4, s', ())"
      and out: "sub_class_outcome ?cmp (reg_read ?cmp (mem ?cmp (PC ?cmp))) 0 False (PC ?cmp + 1) s'"
      by (elim exE conjE)
    have o: "sub_class_flags ?cmp (A ?cmp) (reg_read ?cmp (mem ?cmp (PC ?cmp))) 0 s'
        \<and> A s' = (if False then sub_class_result (A ?cmp) (reg_read ?cmp (mem ?cmp (PC ?cmp))) 0
             else A ?cmp)
        \<and> s' = ?cmp\<lparr>A := A s', F := F s', PC := PC ?cmp + 1\<rparr>"
      using out unfolding sub_class_outcome_def .
    have ev: "A ?cmp = 0x05" "reg_read ?cmp (mem ?cmp (PC ?cmp)) = 0x06"
      by (simp_all add: init_state_def reg_read_def)
    have fl: "sub_class_flags ?cmp 0x05 0x06 0 s'"
      using conjunct1 [OF o] by (simp only: ev)
    have a: "A s' = 0x05"
      using conjunct1 [OF conjunct2 [OF o]] by (simp only: ev if_True if_False)
    have pc: "PC s' = 1"
      using arg_cong [OF conjunct2 [OF conjunct2 [OF o]], of PC] by (simp add: init_state_def)
    have r: "sub_class_result 0x05 0x06 0 = 0xFF"
      by (simp add: sub_class_result_def)
    have "Step8080 ?cmp no_io () = Inr (4, s', ())"
      using st by (simp add: init_state_def)
    moreover have "flag_cy s'" "flag_ac s'" "flag_s s'" "\<not> flag_z s'"
      using fl by (simp_all add: sub_class_flags_def Let_def r)
    ultimately show ?thesis
      using a pc by (intro exI [of _ s'] conjI)
  qed
  show ?thesis
    by (intro conjI) (rule scen ac cy sub cmp)+
qed

end
